theory Spec2Isabelle
  imports Complex_Main "HOL-Library.AList" "HOL-Library.Sublist" "HOL-Library.Word"
begin

section \<open>JavaScript values\<close>

text \<open>
  The SDK is written against values of type \<open>any\<close>. Call parameters, responses and
  attribute values are modelled by \<open>jsval\<close>: the primitive values and plain data objects
  (own properties only, as an association list in insertion order). Numbers are exact
  rationals; the integral ones are the values \<open>Number.isInteger\<close> accepts. \<open>NaN\<close>, the
  infinities and IEEE rounding are outside the model.

  \<open>JBody r\<close> is the body of a Bedrock response: an SDK blob whose only use in the
  wrapper is \<open>JSON.parse(await body.transformToString())\<close>. Both steps belong to the
  runtime, so the blob carries what the two steps yield on it: \<open>Inl\<close> the failure
  thrown (bytes that do not decode, text that is not JSON) or \<open>Inr\<close> the parsed data.
\<close>

datatype failure =
    ErrorInstance string string
  | NonError string

text \<open>
  A thrown value is observed by the wrapper in three ways only: \<open>error instanceof Error\<close>,
  \<open>error.message\<close> and \<open>String(error)\<close>. \<open>ErrorInstance n m\<close> is an \<open>Error\<close> object
  of class \<open>n\<close> with message \<open>m\<close>; \<open>NonError s\<close> is any other thrown value, \<open>s\<close> being
  its string form.
\<close>

datatype jsval =
    JUndefined
  | JNull
  | JBool bool
  | JNum rat
  | JStr string
  | JObj "(string \<times> jsval) list"
  | JBody "failure + jsval"

definition TypeError :: "string \<Rightarrow> failure" where
  "TypeError msg = ErrorInstance ''TypeError'' msg"

fun instanceof_Error :: "failure \<Rightarrow> bool" where
  "instanceof_Error (ErrorInstance n m) = True"
| "instanceof_Error (NonError s) = False"

fun error_message :: "failure \<Rightarrow> string" where
  "error_message (ErrorInstance n m) = m"
| "error_message (NonError s) = []"

fun String_of_error :: "failure \<Rightarrow> string" where
  "String_of_error (ErrorInstance n m) = n @ '': '' @ m"
| "String_of_error (NonError s) = s"

fun truthy :: "jsval \<Rightarrow> bool" where
  "truthy JUndefined = False"
| "truthy JNull = False"
| "truthy (JBool b) = b"
| "truthy (JNum r) = (r \<noteq> 0)"
| "truthy (JStr s) = (s \<noteq> [])"
| "truthy (JObj kvs) = True"
| "truthy (JBody r) = True"

definition js_or :: "jsval \<Rightarrow> jsval \<Rightarrow> jsval" where
  "js_or a b = (if truthy a then a else b)"

fun nullish :: "jsval \<Rightarrow> bool" where
  "nullish JUndefined = True"
| "nullish JNull = True"
| "nullish v = False"

text \<open>
  \<open>v.key\<close> on a value that is neither \<open>null\<close> nor \<open>undefined\<close>: the own property, or
  \<open>undefined\<close>. Reading a property of \<open>null\<close> or \<open>undefined\<close> throws a \<open>TypeError\<close>,
  which \<open>get_prop\<close> returns as \<open>Inl\<close>.
\<close>

fun own_prop :: "jsval \<Rightarrow> string \<Rightarrow> jsval" where
  "own_prop (JObj kvs) key = (case map_of kvs key of Some v \<Rightarrow> v | None \<Rightarrow> JUndefined)"
| "own_prop v key = JUndefined"

definition get_prop :: "jsval \<Rightarrow> string \<Rightarrow> failure + jsval" where
  "get_prop v key =
     (if nullish v then Inl (TypeError (''Cannot read properties of null or undefined, reading '' @ key))
      else Inr (own_prop v key))"

definition is_integer :: "rat \<Rightarrow> bool" where
  "is_integer r = (of_int \<lfloor>r\<rfloor> = r)"

function show_nat :: "nat \<Rightarrow> string" where
  "show_nat n = (if n < 10 then [''0123456789'' ! n]
                 else show_nat (n div 10) @ [''0123456789'' ! (n mod 10)])"
  by pat_completeness auto
termination
  by (relation "measure id") auto

declare show_nat.simps [simp del]

definition show_int :: "int \<Rightarrow> string" where
  "show_int i = (if i < 0 then CHR ''-'' # show_nat (nat (- i)) else show_nat (nat i))"

text \<open>
  \<open>String(v)\<close>. The string form of an integral number is its decimal numeral; the
  shortest round-trip form the runtime prints for a non-integral number is not modelled
  (the integral part stands in for it), and no result below depends on it.
\<close>

fun js_String :: "jsval \<Rightarrow> string" where
  "js_String JUndefined = ''undefined''"
| "js_String JNull = ''null''"
| "js_String (JBool b) = (if b then ''true'' else ''false'')"
| "js_String (JNum r) = show_int \<lfloor>r\<rfloor>"
| "js_String (JStr s) = s"
| "js_String (JObj kvs) = ''[object Object]''"
| "js_String (JBody r) = ''[object Object]''"

text \<open>
  \<open>a + b\<close> as the wrapper uses it, on operands of the form \<open>x || 0\<close> (so neither is
  \<open>undefined\<close>, \<open>null\<close> or \<open>false\<close>): numbers add, \<open>true\<close> counts as 1, and a string
  or object operand turns the sum into a concatenation of string forms.
\<close>

fun to_number :: "jsval \<Rightarrow> rat option" where
  "to_number (JNum r) = Some r"
| "to_number (JBool b) = Some (if b then 1 else 0)"
| "to_number JNull = Some 0"
| "to_number v = None"

definition js_add :: "jsval \<Rightarrow> jsval \<Rightarrow> jsval" where
  "js_add a b =
     (case (to_number a, to_number b) of
        (Some x, Some y) \<Rightarrow> JNum (x + y)
      | _ \<Rightarrow> JStr (js_String a @ js_String b))"

section \<open>Spans and the tracer (tracer.ts)\<close>

datatype any_value =
    StringValue string
  | IntValue int
  | DoubleValue rat
  | BoolValue bool

record span_data =
  traceId :: string
  spanId :: string
  parentSpanId :: "string option"
  name :: string
  kind :: string
  startTimeUnixNano :: string
  endTimeUnixNano :: string
  attributes :: "(string \<times> any_value) list"
  status :: "(int \<times> string option) option"
  events :: "jsval list"

record trace_context =
  tc_traceId :: string
  tc_spanId :: string
  tc_customerId :: "string option"

record config =
  apiKey :: string
  baseUrl :: "string option"
  customerId :: "string option"
  debug :: bool

record otel_payload =
  resource_attributes :: "(string \<times> any_value) list"
  scope_name :: string
  scope_version :: string
  spans :: "span_data list"

record request =
  url :: string
  api_key_header :: string
  body :: otel_payload

text \<open>
  What \<open>fetch\<close> does with a request: it rejects, or it resolves with a response that is
  not ok (whose \<open>text()\<close> rejects or yields the error text), or with one that is ok
  (whose \<open>json()\<close> rejects or yields the parsed result).
\<close>

datatype fetch_result =
    Rejected failure
  | NotOk "failure + string"
  | Ok "failure + jsval"

datatype console_line =
    ExportFailed string
  | ExportError failure

text \<open>
  The state of one \<open>AgentBillTracer\<close> together with the part of the runtime it acts on.
  \<open>activeSpans\<close> is the \<open>Map\<close> keyed by span id (\<open>set\<close> is \<open>AList.update\<close>, \<open>delete\<close> is
  \<open>AList.delete\<close>, \<open>get\<close> is \<open>map_of\<close>, \<open>size\<close> is \<open>length\<close>). The runtime part: \<open>now\<close>
  is what \<open>Date.now()\<close> reads, \<open>timers\<close> are the armed timeouts (handle and deadline),
  \<open>next_handle\<close> the next handle \<open>setTimeout\<close> returns, \<open>requests\<close> the POSTs issued so
  far, \<open>console\<close> the lines written by \<open>console.error\<close>, and \<open>net n\<close> the outcome of the
  \<open>n\<close>-th POST. The debug output of \<open>log\<close> (written only when \<open>config.debug\<close> is set)
  is not recorded.
\<close>

record tracer =
  config :: config
  activeSpans :: "(string \<times> span_data) list"
  pendingExports :: "span_data list"
  exportTimer :: "nat option"
  now :: int
  timers :: "(nat \<times> int) list"
  next_handle :: nat
  requests :: "request list"
  console :: "console_line list"
  net :: "nat \<Rightarrow> fetch_result"

definition new_tracer :: "config \<Rightarrow> int \<Rightarrow> (nat \<Rightarrow> fetch_result) \<Rightarrow> tracer" where
  "new_tracer cfg t0 nw =
     \<lparr> config = cfg, activeSpans = [], pendingExports = [], exportTimer = None,
       now = t0, timers = [], next_handle = 0, requests = [], console = [], net = nw \<rparr>"

subsection \<open>Identifiers\<close>

text \<open>
  \<open>crypto.getRandomValues(bytes)\<close> fills the array; the filling is the argument \<open>rnd\<close>
  (the byte written at each index).
\<close>

definition hex_digit :: "nat \<Rightarrow> char" where
  "hex_digit n = ''0123456789abcdef'' ! n"

definition hex_byte :: "8 word \<Rightarrow> string" where
  "hex_byte b = [hex_digit (unat b div 16), hex_digit (unat b mod 16)]"

definition generateId :: "(nat \<Rightarrow> 8 word) \<Rightarrow> nat \<Rightarrow> string" where
  "generateId rnd len = concat (map (\<lambda>i. hex_byte (rnd i)) [0..<len div 2])"

definition generateTraceId :: "(nat \<Rightarrow> 8 word) \<Rightarrow> string" where
  "generateTraceId rnd = generateId rnd 32"

definition generateSpanId :: "(nat \<Rightarrow> 8 word) \<Rightarrow> string" where
  "generateSpanId rnd = generateId rnd 16"

subsection \<open>Span registry\<close>

definition encodeValue :: "jsval \<Rightarrow> any_value" where
  "encodeValue v =
     (case v of
        JStr s \<Rightarrow> StringValue s
      | JNum r \<Rightarrow> (if is_integer r then IntValue \<lfloor>r\<rfloor> else DoubleValue r)
      | JBool b \<Rightarrow> BoolValue b
      | _ \<Rightarrow> StringValue (js_String v))"

text \<open>
  \<open>startSpan w (rt, rs) nm ctx\<close>: \<open>rt\<close> and \<open>rs\<close> are the random fillings for the trace
  id (used only when no trace id is inherited) and for the span id.
\<close>

definition startSpan ::
  "tracer \<Rightarrow> (nat \<Rightarrow> 8 word) \<times> (nat \<Rightarrow> 8 word) \<Rightarrow> string \<Rightarrow> trace_context option
     \<Rightarrow> trace_context \<times> tracer" where
  "startSpan w rnd nm traceContext =
     (let tid = (case traceContext of
                   Some c \<Rightarrow> if tc_traceId c \<noteq> [] then tc_traceId c else generateTraceId (fst rnd)
                 | None \<Rightarrow> generateTraceId (fst rnd));
          sid = generateSpanId (snd rnd);
          startTime = now w;
          sp = \<lparr> traceId = tid, spanId = sid,
                   parentSpanId = map_option tc_spanId traceContext,
                   name = nm, kind = ''client'',
                   startTimeUnixNano = show_int (startTime * 1000000),
                   endTimeUnixNano = [],
                   attributes = [], status = None, events = [] \<rparr>;
          cid = (case traceContext of
                   Some c \<Rightarrow> (case tc_customerId c of
                                Some s \<Rightarrow> if s \<noteq> [] then Some s else customerId (config w)
                              | None \<Rightarrow> customerId (config w))
                 | None \<Rightarrow> customerId (config w))
      in (\<lparr> tc_traceId = tid, tc_spanId = sid, tc_customerId = cid \<rparr>,
          w\<lparr>activeSpans := AList.update sid sp (activeSpans w)\<rparr>))"

definition setSpanAttribute :: "tracer \<Rightarrow> string \<Rightarrow> string \<Rightarrow> jsval \<Rightarrow> tracer" where
  "setSpanAttribute w sid key v =
     (case map_of (activeSpans w) sid of
        Some sp \<Rightarrow>
          w\<lparr>activeSpans :=
              AList.update sid (sp\<lparr>attributes := attributes sp @ [(key, encodeValue v)]\<rparr>)
                (activeSpans w)\<rparr>
      | None \<Rightarrow> w)"

definition setSpanStatus :: "tracer \<Rightarrow> string \<Rightarrow> int \<Rightarrow> string option \<Rightarrow> tracer" where
  "setSpanStatus w sid code msg =
     (case map_of (activeSpans w) sid of
        Some sp \<Rightarrow>
          w\<lparr>activeSpans := AList.update sid (sp\<lparr>status := Some (code, msg)\<rparr>) (activeSpans w)\<rparr>
      | None \<Rightarrow> w)"

subsection \<open>Batch exporter\<close>

definition clearTimeout :: "tracer \<Rightarrow> nat \<Rightarrow> tracer" where
  "clearTimeout w h = w\<lparr>timers := filter (\<lambda>(h', d). h' \<noteq> h) (timers w)\<rparr>"

definition setTimeout :: "tracer \<Rightarrow> int \<Rightarrow> nat \<times> tracer" where
  "setTimeout w ms =
     (next_handle w,
      w\<lparr>timers := timers w @ [(next_handle w, now w + ms)], next_handle := Suc (next_handle w)\<rparr>)"

definition export_payload :: "config \<Rightarrow> span_data list \<Rightarrow> otel_payload" where
  "export_payload cfg sps =
     \<lparr> resource_attributes =
         [(''service.name'', StringValue ''agentbill-sdk''),
          (''service.version'', StringValue ''1.0.0'')]
         @ (case customerId cfg of
              Some c \<Rightarrow> if c \<noteq> [] then [(''customer.id'', StringValue c)] else []
            | None \<Rightarrow> []),
       scope_name = ''agentbill-instrumentation'',
       scope_version = ''1.0.0'',
       spans = sps \<rparr>"

definition export_request :: "config \<Rightarrow> otel_payload \<Rightarrow> request" where
  "export_request cfg payload =
     \<lparr> url = (case baseUrl cfg of
                Some b \<Rightarrow> if b \<noteq> [] then b else ''https://uenhjwdtnxtchlmqarjo.supabase.co''
              | None \<Rightarrow> ''https://uenhjwdtnxtchlmqarjo.supabase.co'')
             @ ''/functions/v1/otel-collector'',
       api_key_header = apiKey cfg,
       body = payload \<rparr>"

text \<open>
  What the \<open>try\<close>/\<open>catch\<close> around \<open>fetch\<close> writes with \<open>console.error\<close> for each outcome.
  Nothing else of the outcome reaches the tracer.
\<close>

fun export_console :: "fetch_result \<Rightarrow> console_line list" where
  "export_console (Rejected e) = [ExportError e]"
| "export_console (NotOk (Inl e)) = [ExportError e]"
| "export_console (NotOk (Inr txt)) = [ExportFailed txt]"
| "export_console (Ok (Inl e)) = [ExportError e]"
| "export_console (Ok (Inr res)) = []"

definition exportSpans :: "tracer \<Rightarrow> tracer" where
  "exportSpans w =
     (if pendingExports w = [] then w
      else
        let sps = pendingExports w;
            payload = export_payload (config w) sps;
            outcome = net w (length (requests w))
        in w\<lparr>pendingExports := [],
             requests := requests w @ [export_request (config w) payload],
             console := console w @ export_console outcome\<rparr>)"

definition scheduleExport :: "tracer \<Rightarrow> tracer" where
  "scheduleExport w =
     (let w1 = (case exportTimer w of Some h \<Rightarrow> clearTimeout w h | None \<Rightarrow> w)
      in if length (pendingExports w1) \<ge> 10 then exportSpans w1
         else (let (h, w2) = setTimeout w1 1000 in w2\<lparr>exportTimer := Some h\<rparr>))"

definition endSpan :: "tracer \<Rightarrow> string \<Rightarrow> tracer" where
  "endSpan w sid =
     (case map_of (activeSpans w) sid of
        None \<Rightarrow> w
      | Some sp \<Rightarrow>
          scheduleExport
            (w\<lparr>activeSpans := AList.delete sid (activeSpans w),
               pendingExports := pendingExports w
                 @ [sp\<lparr>endTimeUnixNano := show_int (now w * 1000000)\<rparr>]\<rparr>))"

definition flush :: "tracer \<Rightarrow> tracer" where
  "flush w = exportSpans (case exportTimer w of Some h \<Rightarrow> clearTimeout w h | None \<Rightarrow> w)"

text \<open>
  The passing of \<open>dt\<close> milliseconds during which the program is idle or awaits: every
  timeout that has come due fires, in the order it was armed, and its callback runs
  \<open>exportSpans\<close>.
\<close>

definition fire :: "tracer \<Rightarrow> nat \<Rightarrow> tracer" where
  "fire w h = exportSpans (w\<lparr>timers := filter (\<lambda>(h', d). h' \<noteq> h) (timers w)\<rparr>)"

definition advance :: "nat \<Rightarrow> tracer \<Rightarrow> tracer" where
  "advance dt w =
     (let w1 = w\<lparr>now := now w + int dt\<rparr>;
          due = filter (\<lambda>(h, d). d \<le> now w1) (timers w1)
      in foldl (\<lambda>s (h, d). fire s h) w1 due)"

section \<open>The wrapper (wrapper.ts)\<close>

text \<open>
  The wrapped provider method: applied to the call parameters it fails or yields a
  response, after some milliseconds during which the wrapper awaits. While it awaits,
  the timeouts that come due fire (\<open>advance\<close>).
\<close>

type_synonym provider_call = "jsval \<Rightarrow> (failure + jsval) \<times> nat"

type_synonym random_fill = "(nat \<Rightarrow> 8 word) \<times> (nat \<Rightarrow> 8 word)"

text \<open>
  The \<open>catch\<close> block, the same text in every instrumenting method: status 2 with the
  message of an \<open>Error\<close> (else the fixed text), the two error attributes, \<open>endSpan\<close>. The
  caller then rethrows \<open>error\<close> itself.
\<close>

definition catch_block :: "tracer \<Rightarrow> string \<Rightarrow> failure \<Rightarrow> tracer" where
  "catch_block w sid error =
     (let w = setSpanStatus w sid 2
                (Some (if instanceof_Error error then error_message error else ''Unknown error''));
          w = setSpanAttribute w sid ''error'' (JBool True);
          w = setSpanAttribute w sid ''error.message''
                (JStr (if instanceof_Error error then error_message error
                       else String_of_error error))
      in endSpan w sid)"

definition try_catch ::
  "(failure + jsval) \<times> tracer \<Rightarrow> string \<Rightarrow> (failure + jsval) \<times> tracer" where
  "try_catch r sid =
     (case r of
        (Inr response, w) \<Rightarrow> (Inr response, w)
      | (Inl error, w) \<Rightarrow> (Inl error, catch_block w sid error))"

text \<open>
  The usage blocks, entered when \<open>response.usage\<close> is truthy. \<open>chat_usage\<close> is the block of
  the OpenAI, Azure OpenAI and Mistral chat methods, \<open>embeddings_usage\<close> that of the
  embeddings method, \<open>sum_usage\<close> that of the Anthropic and Bedrock methods.
\<close>

definition chat_usage :: "tracer \<Rightarrow> string \<Rightarrow> jsval \<Rightarrow> tracer" where
  "chat_usage w sid usage =
     (let w = setSpanAttribute w sid ''gen_ai.usage.prompt_tokens''
                (js_or (own_prop usage ''prompt_tokens'') (JNum 0));
          w = setSpanAttribute w sid ''gen_ai.usage.completion_tokens''
                (js_or (own_prop usage ''completion_tokens'') (JNum 0));
          w = setSpanAttribute w sid ''gen_ai.usage.total_tokens''
                (js_or (own_prop usage ''total_tokens'') (JNum 0));
          w = setSpanAttribute w sid ''ai.prompt_tokens''
                (js_or (own_prop usage ''prompt_tokens'') (JNum 0));
          w = setSpanAttribute w sid ''ai.completion_tokens''
                (js_or (own_prop usage ''completion_tokens'') (JNum 0))
      in setSpanAttribute w sid ''ai.total_tokens''
           (js_or (own_prop usage ''total_tokens'') (JNum 0)))"

definition embeddings_usage :: "tracer \<Rightarrow> string \<Rightarrow> jsval \<Rightarrow> tracer" where
  "embeddings_usage w sid usage =
     (let w = setSpanAttribute w sid ''gen_ai.usage.prompt_tokens''
                (js_or (own_prop usage ''prompt_tokens'') (JNum 0));
          w = setSpanAttribute w sid ''gen_ai.usage.total_tokens''
                (js_or (own_prop usage ''total_tokens'') (JNum 0));
          w = setSpanAttribute w sid ''ai.prompt_tokens''
                (js_or (own_prop usage ''prompt_tokens'') (JNum 0))
      in setSpanAttribute w sid ''ai.total_tokens''
           (js_or (own_prop usage ''total_tokens'') (JNum 0)))"

definition sum_usage :: "tracer \<Rightarrow> string \<Rightarrow> jsval \<Rightarrow> tracer" where
  "sum_usage w sid usage =
     (let w = setSpanAttribute w sid ''gen_ai.usage.prompt_tokens''
                (js_or (own_prop usage ''input_tokens'') (JNum 0));
          w = setSpanAttribute w sid ''gen_ai.usage.completion_tokens''
                (js_or (own_prop usage ''output_tokens'') (JNum 0));
          w = setSpanAttribute w sid ''gen_ai.usage.total_tokens''
                (js_add (js_or (own_prop usage ''input_tokens'') (JNum 0))
                        (js_or (own_prop usage ''output_tokens'') (JNum 0)));
          w = setSpanAttribute w sid ''ai.prompt_tokens''
                (js_or (own_prop usage ''input_tokens'') (JNum 0));
          w = setSpanAttribute w sid ''ai.completion_tokens''
                (js_or (own_prop usage ''output_tokens'') (JNum 0))
      in setSpanAttribute w sid ''ai.total_tokens''
           (js_add (js_or (own_prop usage ''input_tokens'') (JNum 0))
                   (js_or (own_prop usage ''output_tokens'') (JNum 0))))"

text \<open>
  The instrumenting methods. Each \<open>try_\<close> function is the body of the \<open>try\<close> block: it
  returns \<open>Inl\<close> where a statement throws, with the state reached by then. The first
  read of a property of the parameters (or of the response) throws a \<open>TypeError\<close> when
  that value is \<open>null\<close> or \<open>undefined\<close>; the reads after it cannot.
\<close>

definition try_OpenAICall ::
  "tracer \<Rightarrow> string \<Rightarrow> int \<Rightarrow> provider_call \<Rightarrow> jsval \<Rightarrow> (failure + jsval) \<times> tracer" where
  "try_OpenAICall w sid startTime originalFn params =
     (let w = setSpanAttribute w sid ''gen_ai.system'' (JStr ''openai'')
      in case get_prop params ''model'' of
           Inl e \<Rightarrow> (Inl e, w)
         | Inr model \<Rightarrow>
             let w = setSpanAttribute w sid ''gen_ai.request.model'' (js_or model (JStr ''unknown''));
                 w = setSpanAttribute w sid ''ai.provider'' (JStr ''openai'');
                 w = setSpanAttribute w sid ''ai.model'' (js_or model (JStr ''unknown''));
                 w = (if own_prop params ''temperature'' \<noteq> JUndefined
                      then setSpanAttribute w sid ''gen_ai.request.temperature''
                             (own_prop params ''temperature'')
                      else w);
                 w = (if own_prop params ''max_tokens'' \<noteq> JUndefined
                      then setSpanAttribute w sid ''gen_ai.request.max_tokens''
                             (own_prop params ''max_tokens'')
                      else w);
                 (outcome, dt) = originalFn params;
                 w = advance dt w
             in case outcome of
                  Inl e \<Rightarrow> (Inl e, w)
                | Inr response \<Rightarrow>
                    let latencyMs = now w - startTime;
                        w = setSpanAttribute w sid ''gen_ai.response.latency_ms''
                              (JNum (of_int latencyMs))
                    in case get_prop response ''usage'' of
                         Inl e \<Rightarrow> (Inl e, w)
                       | Inr usage \<Rightarrow>
                           let w = (if truthy usage then chat_usage w sid usage else w);
                               w = setSpanStatus w sid 0 None;
                               w = endSpan w sid
                           in (Inr response, w))"

definition instrumentOpenAICall ::
  "tracer \<Rightarrow> random_fill \<Rightarrow> provider_call \<Rightarrow> jsval \<Rightarrow> (failure + jsval) \<times> tracer" where
  "instrumentOpenAICall w rnd originalFn params =
     (let (traceContext, w) = startSpan w rnd ''openai.chat.completions.create'' None;
          startTime = now w
      in try_catch (try_OpenAICall w (tc_spanId traceContext) startTime originalFn params)
           (tc_spanId traceContext))"

definition try_OpenAIEmbeddings ::
  "tracer \<Rightarrow> string \<Rightarrow> int \<Rightarrow> provider_call \<Rightarrow> jsval \<Rightarrow> (failure + jsval) \<times> tracer" where
  "try_OpenAIEmbeddings w sid startTime originalFn params =
     (let w = setSpanAttribute w sid ''gen_ai.system'' (JStr ''openai'')
      in case get_prop params ''model'' of
           Inl e \<Rightarrow> (Inl e, w)
         | Inr model \<Rightarrow>
             let w = setSpanAttribute w sid ''gen_ai.request.model'' (js_or model (JStr ''unknown''));
                 w = setSpanAttribute w sid ''ai.provider'' (JStr ''openai'');
                 w = setSpanAttribute w sid ''ai.model'' (js_or model (JStr ''unknown''));
                 (outcome, dt) = originalFn params;
                 w = advance dt w
             in case outcome of
                  Inl e \<Rightarrow> (Inl e, w)
                | Inr response \<Rightarrow>
                    let latencyMs = now w - startTime;
                        w = setSpanAttribute w sid ''gen_ai.response.latency_ms''
                              (JNum (of_int latencyMs))
                    in case get_prop response ''usage'' of
                         Inl e \<Rightarrow> (Inl e, w)
                       | Inr usage \<Rightarrow>
                           let w = (if truthy usage then embeddings_usage w sid usage else w);
                               w = setSpanStatus w sid 0 None;
                               w = endSpan w sid
                           in (Inr response, w))"

definition instrumentOpenAIEmbeddings ::
  "tracer \<Rightarrow> random_fill \<Rightarrow> provider_call \<Rightarrow> jsval \<Rightarrow> (failure + jsval) \<times> tracer" where
  "instrumentOpenAIEmbeddings w rnd originalFn params =
     (let (traceContext, w) = startSpan w rnd ''openai.embeddings.create'' None;
          startTime = now w
      in try_catch (try_OpenAIEmbeddings w (tc_spanId traceContext) startTime originalFn params)
           (tc_spanId traceContext))"

definition try_OpenAIImages ::
  "tracer \<Rightarrow> string \<Rightarrow> int \<Rightarrow> provider_call \<Rightarrow> jsval \<Rightarrow> (failure + jsval) \<times> tracer" where
  "try_OpenAIImages w sid startTime originalFn params =
     (let w = setSpanAttribute w sid ''gen_ai.system'' (JStr ''openai'')
      in case get_prop params ''model'' of
           Inl e \<Rightarrow> (Inl e, w)
         | Inr model \<Rightarrow>
             let w = setSpanAttribute w sid ''gen_ai.request.model'' (js_or model (JStr ''dall-e-3''));
                 w = setSpanAttribute w sid ''ai.provider'' (JStr ''openai'');
                 w = setSpanAttribute w sid ''ai.model'' (js_or model (JStr ''dall-e-3''));
                 w = (if truthy (own_prop params ''size'')
                      then setSpanAttribute w sid ''image.size'' (own_prop params ''size'')
                      else w);
                 w = (if truthy (own_prop params ''quality'')
                      then setSpanAttribute w sid ''image.quality'' (own_prop params ''quality'')
                      else w);
                 (outcome, dt) = originalFn params;
                 w = advance dt w
             in case outcome of
                  Inl e \<Rightarrow> (Inl e, w)
                | Inr response \<Rightarrow>
                    let latencyMs = now w - startTime;
                        w = setSpanAttribute w sid ''gen_ai.response.latency_ms''
                              (JNum (of_int latencyMs));
                        w = setSpanStatus w sid 0 None;
                        w = endSpan w sid
                    in (Inr response, w))"

definition instrumentOpenAIImages ::
  "tracer \<Rightarrow> random_fill \<Rightarrow> provider_call \<Rightarrow> jsval \<Rightarrow> (failure + jsval) \<times> tracer" where
  "instrumentOpenAIImages w rnd originalFn params =
     (let (traceContext, w) = startSpan w rnd ''openai.images.generate'' None;
          startTime = now w
      in try_catch (try_OpenAIImages w (tc_spanId traceContext) startTime originalFn params)
           (tc_spanId traceContext))"

definition try_OpenAIAudioTranscription ::
  "tracer \<Rightarrow> string \<Rightarrow> int \<Rightarrow> provider_call \<Rightarrow> jsval \<Rightarrow> (failure + jsval) \<times> tracer" where
  "try_OpenAIAudioTranscription w sid startTime originalFn params =
     (let w = setSpanAttribute w sid ''gen_ai.system'' (JStr ''openai'')
      in case get_prop params ''model'' of
           Inl e \<Rightarrow> (Inl e, w)
         | Inr model \<Rightarrow>
             let w = setSpanAttribute w sid ''gen_ai.request.model'' (js_or model (JStr ''whisper-1''));
                 w = setSpanAttribute w sid ''ai.provider'' (JStr ''openai'');
                 w = setSpanAttribute w sid ''ai.model'' (js_or model (JStr ''whisper-1''));
                 (outcome, dt) = originalFn params;
                 w = advance dt w
             in case outcome of
                  Inl e \<Rightarrow> (Inl e, w)
                | Inr response \<Rightarrow>
                    let latencyMs = now w - startTime;
                        w = setSpanAttribute w sid ''gen_ai.response.latency_ms''
                              (JNum (of_int latencyMs));
                        w = setSpanStatus w sid 0 None;
                        w = endSpan w sid
                    in (Inr response, w))"

definition instrumentOpenAIAudioTranscription ::
  "tracer \<Rightarrow> random_fill \<Rightarrow> provider_call \<Rightarrow> jsval \<Rightarrow> (failure + jsval) \<times> tracer" where
  "instrumentOpenAIAudioTranscription w rnd originalFn params =
     (let (traceContext, w) = startSpan w rnd ''openai.audio.transcriptions.create'' None;
          startTime = now w
      in try_catch (try_OpenAIAudioTranscription w (tc_spanId traceContext) startTime originalFn params)
           (tc_spanId traceContext))"

definition try_OpenAIAudioSpeech ::
  "tracer \<Rightarrow> string \<Rightarrow> int \<Rightarrow> provider_call \<Rightarrow> jsval \<Rightarrow> (failure + jsval) \<times> tracer" where
  "try_OpenAIAudioSpeech w sid startTime originalFn params =
     (let w = setSpanAttribute w sid ''gen_ai.system'' (JStr ''openai'')
      in case get_prop params ''model'' of
           Inl e \<Rightarrow> (Inl e, w)
         | Inr model \<Rightarrow>
             let w = setSpanAttribute w sid ''gen_ai.request.model'' (js_or model (JStr ''tts-1''));
                 w = setSpanAttribute w sid ''ai.provider'' (JStr ''openai'');
                 w = setSpanAttribute w sid ''ai.model'' (js_or model (JStr ''tts-1''));
                 w = (if truthy (own_prop params ''voice'')
                      then setSpanAttribute w sid ''audio.voice'' (own_prop params ''voice'')
                      else w);
                 (outcome, dt) = originalFn params;
                 w = advance dt w
             in case outcome of
                  Inl e \<Rightarrow> (Inl e, w)
                | Inr response \<Rightarrow>
                    let latencyMs = now w - startTime;
                        w = setSpanAttribute w sid ''gen_ai.response.latency_ms''
                              (JNum (of_int latencyMs));
                        w = setSpanStatus w sid 0 None;
                        w = endSpan w sid
                    in (Inr response, w))"

definition instrumentOpenAIAudioSpeech ::
  "tracer \<Rightarrow> random_fill \<Rightarrow> provider_call \<Rightarrow> jsval \<Rightarrow> (failure + jsval) \<times> tracer" where
  "instrumentOpenAIAudioSpeech w rnd originalFn params =
     (let (traceContext, w) = startSpan w rnd ''openai.audio.speech.create'' None;
          startTime = now w
      in try_catch (try_OpenAIAudioSpeech w (tc_spanId traceContext) startTime originalFn params)
           (tc_spanId traceContext))"

definition try_OpenAIModerations ::
  "tracer \<Rightarrow> string \<Rightarrow> int \<Rightarrow> provider_call \<Rightarrow> jsval \<Rightarrow> (failure + jsval) \<times> tracer" where
  "try_OpenAIModerations w sid startTime originalFn params =
     (let w = setSpanAttribute w sid ''gen_ai.system'' (JStr ''openai'')
      in case get_prop params ''model'' of
           Inl e \<Rightarrow> (Inl e, w)
         | Inr model \<Rightarrow>
             let w = setSpanAttribute w sid ''gen_ai.request.model'' (js_or model (JStr ''text-moderation-latest''));
                 w = setSpanAttribute w sid ''ai.provider'' (JStr ''openai'');
                 w = setSpanAttribute w sid ''ai.model'' (js_or model (JStr ''text-moderation-latest''));
                 (outcome, dt) = originalFn params;
                 w = advance dt w
             in case outcome of
                  Inl e \<Rightarrow> (Inl e, w)
                | Inr response \<Rightarrow>
                    let latencyMs = now w - startTime;
                        w = setSpanAttribute w sid ''gen_ai.response.latency_ms''
                              (JNum (of_int latencyMs));
                        w = setSpanStatus w sid 0 None;
                        w = endSpan w sid
                    in (Inr response, w))"

definition instrumentOpenAIModerations ::
  "tracer \<Rightarrow> random_fill \<Rightarrow> provider_call \<Rightarrow> jsval \<Rightarrow> (failure + jsval) \<times> tracer" where
  "instrumentOpenAIModerations w rnd originalFn params =
     (let (traceContext, w) = startSpan w rnd ''openai.moderations.create'' None;
          startTime = now w
      in try_catch (try_OpenAIModerations w (tc_spanId traceContext) startTime originalFn params)
           (tc_spanId traceContext))"

definition try_AnthropicCall ::
  "tracer \<Rightarrow> string \<Rightarrow> int \<Rightarrow> provider_call \<Rightarrow> jsval \<Rightarrow> (failure + jsval) \<times> tracer" where
  "try_AnthropicCall w sid startTime originalFn params =
     (let w = setSpanAttribute w sid ''gen_ai.system'' (JStr ''anthropic'')
      in case get_prop params ''model'' of
           Inl e \<Rightarrow> (Inl e, w)
         | Inr model \<Rightarrow>
             let w = setSpanAttribute w sid ''gen_ai.request.model'' (js_or model (JStr ''unknown''));
                 w = setSpanAttribute w sid ''ai.provider'' (JStr ''anthropic'');
                 w = setSpanAttribute w sid ''ai.model'' (js_or model (JStr ''unknown''));
                 w = (if own_prop params ''temperature'' \<noteq> JUndefined
                      then setSpanAttribute w sid ''gen_ai.request.temperature''
                             (own_prop params ''temperature'')
                      else w);
                 w = (if own_prop params ''max_tokens'' \<noteq> JUndefined
                      then setSpanAttribute w sid ''gen_ai.request.max_tokens''
                             (own_prop params ''max_tokens'')
                      else w);
                 (outcome, dt) = originalFn params;
                 w = advance dt w
             in case outcome of
                  Inl e \<Rightarrow> (Inl e, w)
                | Inr response \<Rightarrow>
                    let latencyMs = now w - startTime;
                        w = setSpanAttribute w sid ''gen_ai.response.latency_ms''
                              (JNum (of_int latencyMs))
                    in case get_prop response ''usage'' of
                         Inl e \<Rightarrow> (Inl e, w)
                       | Inr usage \<Rightarrow>
                           let w = (if truthy usage then sum_usage w sid usage else w);
                               w = setSpanStatus w sid 0 None;
                               w = endSpan w sid
                           in (Inr response, w))"

definition instrumentAnthropicCall ::
  "tracer \<Rightarrow> random_fill \<Rightarrow> provider_call \<Rightarrow> jsval \<Rightarrow> (failure + jsval) \<times> tracer" where
  "instrumentAnthropicCall w rnd originalFn params =
     (let (traceContext, w) = startSpan w rnd ''anthropic.messages.create'' None;
          startTime = now w
      in try_catch (try_AnthropicCall w (tc_spanId traceContext) startTime originalFn params)
           (tc_spanId traceContext))"

text \<open>
  \<open>command.modelId || command.input?.modelId || 'unknown'\<close>; then, on a response with a
  truthy \<open>body\<close>, the body is decoded and parsed. A body that is not an SDK blob has no
  \<open>transformToString\<close> method, and calling it throws a \<open>TypeError\<close>.
\<close>

definition bedrock_modelId :: "jsval \<Rightarrow> jsval" where
  "bedrock_modelId command =
     js_or (js_or (own_prop command ''modelId'')
                  (if nullish (own_prop command ''input'') then JUndefined
                   else own_prop (own_prop command ''input'') ''modelId''))
           (JStr ''unknown'')"

definition decode_body :: "jsval \<Rightarrow> failure + jsval" where
  "decode_body b =
     (case b of
        JBody r \<Rightarrow> r
      | _ \<Rightarrow> Inl (TypeError ''response.body.transformToString is not a function''))"

definition try_BedrockCall ::
  "tracer \<Rightarrow> string \<Rightarrow> int \<Rightarrow> provider_call \<Rightarrow> jsval \<Rightarrow> (failure + jsval) \<times> tracer" where
  "try_BedrockCall w sid startTime originalFn command =
     (case get_prop command ''modelId'' of
        Inl e \<Rightarrow> (Inl e, w)
      | Inr m \<Rightarrow>
          let modelId = bedrock_modelId command;
              w = setSpanAttribute w sid ''gen_ai.system'' (JStr ''bedrock'');
              w = setSpanAttribute w sid ''gen_ai.request.model'' modelId;
              w = setSpanAttribute w sid ''ai.provider'' (JStr ''bedrock'');
              w = setSpanAttribute w sid ''ai.model'' modelId;
              (outcome, dt) = originalFn command;
              w = advance dt w
          in case outcome of
               Inl e \<Rightarrow> (Inl e, w)
             | Inr response \<Rightarrow>
                 let latencyMs = now w - startTime;
                     w = setSpanAttribute w sid ''gen_ai.response.latency_ms''
                           (JNum (of_int latencyMs))
                 in case get_prop response ''body'' of
                      Inl e \<Rightarrow> (Inl e, w)
                    | Inr b \<Rightarrow>
                        if truthy b then
                          (case decode_body b of
                             Inl e \<Rightarrow> (Inl e, w)
                           | Inr bodyJson \<Rightarrow>
                               (case get_prop bodyJson ''usage'' of
                                  Inl e \<Rightarrow> (Inl e, w)
                                | Inr usage \<Rightarrow>
                                    let w = (if truthy usage then sum_usage w sid usage else w);
                                        w = setSpanStatus w sid 0 None;
                                        w = endSpan w sid
                                    in (Inr response, w)))
                        else
                          let w = setSpanStatus w sid 0 None;
                              w = endSpan w sid
                          in (Inr response, w))"

definition instrumentBedrockCall ::
  "tracer \<Rightarrow> random_fill \<Rightarrow> provider_call \<Rightarrow> jsval \<Rightarrow> (failure + jsval) \<times> tracer" where
  "instrumentBedrockCall w rnd originalFn command =
     (let (traceContext, w) = startSpan w rnd ''bedrock.invokeModel'' None;
          startTime = now w
      in try_catch (try_BedrockCall w (tc_spanId traceContext) startTime originalFn command)
           (tc_spanId traceContext))"

definition try_AzureOpenAICall ::
  "tracer \<Rightarrow> string \<Rightarrow> int \<Rightarrow> provider_call \<Rightarrow> jsval \<Rightarrow> (failure + jsval) \<times> tracer" where
  "try_AzureOpenAICall w sid startTime originalFn params =
     (let w = setSpanAttribute w sid ''gen_ai.system'' (JStr ''azure_openai'')
      in case get_prop params ''model'' of
           Inl e \<Rightarrow> (Inl e, w)
         | Inr model \<Rightarrow>
             let w = setSpanAttribute w sid ''gen_ai.request.model'' (js_or model (JStr ''unknown''));
                 w = setSpanAttribute w sid ''ai.provider'' (JStr ''azure_openai'');
                 w = setSpanAttribute w sid ''ai.model'' (js_or model (JStr ''unknown''));
                 w = (if own_prop params ''temperature'' \<noteq> JUndefined
                      then setSpanAttribute w sid ''gen_ai.request.temperature''
                             (own_prop params ''temperature'')
                      else w);
                 w = (if own_prop params ''max_tokens'' \<noteq> JUndefined
                      then setSpanAttribute w sid ''gen_ai.request.max_tokens''
                             (own_prop params ''max_tokens'')
                      else w);
                 (outcome, dt) = originalFn params;
                 w = advance dt w
             in case outcome of
                  Inl e \<Rightarrow> (Inl e, w)
                | Inr response \<Rightarrow>
                    let latencyMs = now w - startTime;
                        w = setSpanAttribute w sid ''gen_ai.response.latency_ms''
                              (JNum (of_int latencyMs))
                    in case get_prop response ''usage'' of
                         Inl e \<Rightarrow> (Inl e, w)
                       | Inr usage \<Rightarrow>
                           let w = (if truthy usage then chat_usage w sid usage else w);
                               w = setSpanStatus w sid 0 None;
                               w = endSpan w sid
                           in (Inr response, w))"

definition instrumentAzureOpenAICall ::
  "tracer \<Rightarrow> random_fill \<Rightarrow> provider_call \<Rightarrow> jsval \<Rightarrow> (failure + jsval) \<times> tracer" where
  "instrumentAzureOpenAICall w rnd originalFn params =
     (let (traceContext, w) = startSpan w rnd ''azure_openai.chat.completions.create'' None;
          startTime = now w
      in try_catch (try_AzureOpenAICall w (tc_spanId traceContext) startTime originalFn params)
           (tc_spanId traceContext))"

definition try_MistralCall ::
  "tracer \<Rightarrow> string \<Rightarrow> int \<Rightarrow> provider_call \<Rightarrow> jsval \<Rightarrow> (failure + jsval) \<times> tracer" where
  "try_MistralCall w sid startTime originalFn params =
     (let w = setSpanAttribute w sid ''gen_ai.system'' (JStr ''mistral'')
      in case get_prop params ''model'' of
           Inl e \<Rightarrow> (Inl e, w)
         | Inr model \<Rightarrow>
             let w = setSpanAttribute w sid ''gen_ai.request.model'' (js_or model (JStr ''unknown''));
                 w = setSpanAttribute w sid ''ai.provider'' (JStr ''mistral'');
                 w = setSpanAttribute w sid ''ai.model'' (js_or model (JStr ''unknown''));
                 w = (if own_prop params ''temperature'' \<noteq> JUndefined
                      then setSpanAttribute w sid ''gen_ai.request.temperature''
                             (own_prop params ''temperature'')
                      else w);
                 w = (if own_prop params ''max_tokens'' \<noteq> JUndefined
                      then setSpanAttribute w sid ''gen_ai.request.max_tokens''
                             (own_prop params ''max_tokens'')
                      else w);
                 (outcome, dt) = originalFn params;
                 w = advance dt w
             in case outcome of
                  Inl e \<Rightarrow> (Inl e, w)
                | Inr response \<Rightarrow>
                    let latencyMs = now w - startTime;
                        w = setSpanAttribute w sid ''gen_ai.response.latency_ms''
                              (JNum (of_int latencyMs))
                    in case get_prop response ''usage'' of
                         Inl e \<Rightarrow> (Inl e, w)
                       | Inr usage \<Rightarrow>
                           let w = (if truthy usage then chat_usage w sid usage else w);
                               w = setSpanStatus w sid 0 None;
                               w = endSpan w sid
                           in (Inr response, w))"

definition instrumentMistralCall ::
  "tracer \<Rightarrow> random_fill \<Rightarrow> provider_call \<Rightarrow> jsval \<Rightarrow> (failure + jsval) \<times> tracer" where
  "instrumentMistralCall w rnd originalFn params =
     (let (traceContext, w) = startSpan w rnd ''mistral.chat.complete'' None;
          startTime = now w
      in try_catch (try_MistralCall w (tc_spanId traceContext) startTime originalFn params)
           (tc_spanId traceContext))"


subsection \<open>Proxies\<close>

text \<open>
  A provider client is an object graph: objects with properties, functions (named by a
  number; what a function does is given separately), and plain data values.
\<close>

datatype client =
    CObj "(string \<times> client) list"
  | CFn nat
  | CVal jsval

fun is_object :: "client \<Rightarrow> bool" where
  "is_object (CObj ps) = True"
| "is_object (CFn f) = True"
| "is_object (CVal (JObj kvs)) = True"
| "is_object (CVal (JBody r)) = True"
| "is_object (CVal v) = False"

text \<open>
  \<open>target[p]\<close> on a target that is an object (only objects are proxied). The
  properties every function has (\<open>name\<close>, \<open>bind\<close> and the like) are not modelled.
\<close>

fun client_get :: "client \<Rightarrow> string \<Rightarrow> client" where
  "client_get (CObj ps) p = (case map_of ps p of Some v \<Rightarrow> v | None \<Rightarrow> CVal JUndefined)"
| "client_get (CFn f) p = CVal JUndefined"
| "client_get (CVal v) p = CVal (own_prop v p)"

datatype handler =
    OpenAI_client | OpenAI_chat | OpenAI_completions | OpenAI_embeddings | OpenAI_images
  | OpenAI_audio | OpenAI_transcriptions | OpenAI_speech | OpenAI_moderations
  | Anthropic_client | Anthropic_messages
  | Bedrock_client
  | Azure_client | Azure_chat | Azure_completions
  | Mistral_client | Mistral_chat

datatype adapter =
    OpenAICall | OpenAIEmbeddings | OpenAIImages | OpenAIAudioTranscription
  | OpenAIAudioSpeech | OpenAIModerations | AnthropicCall | BedrockCall
  | AzureOpenAICall | MistralCall

text \<open>
  What a property read on a wrapped value yields: the client's own value, a further
  proxy (the \<open>get\<close> handler it carries and its target), or the \<open>async function\<close> that
  stands in for an instrumented member (the instrumenting method it calls, and the
  target and property it closes over).
\<close>

datatype wrapped =
    Forwarded client
  | Proxy handler client
  | AsyncFn adapter client string

text \<open>\<open>new Proxy(target, handler)\<close> throws a \<open>TypeError\<close> unless the target is an object.\<close>

definition new_Proxy :: "client \<Rightarrow> handler \<Rightarrow> failure + wrapped" where
  "new_Proxy target h =
     (if is_object target then Inr (Proxy h target)
      else Inl (TypeError ''Cannot create proxy with a non-object as target or handler''))"

fun proxy_get :: "handler \<Rightarrow> client \<Rightarrow> string \<Rightarrow> failure + wrapped" where
  "proxy_get OpenAI_client target p =
     (let original = client_get target p
      in if p = ''chat'' then new_Proxy original OpenAI_chat
         else if p = ''embeddings'' then new_Proxy original OpenAI_embeddings
         else if p = ''images'' then new_Proxy original OpenAI_images
         else if p = ''audio'' then new_Proxy original OpenAI_audio
         else if p = ''moderations'' then new_Proxy original OpenAI_moderations
         else Inr (Forwarded original))"
| "proxy_get OpenAI_chat chatTarget p =
     (if p = ''completions'' then new_Proxy (client_get chatTarget p) OpenAI_completions
      else Inr (Forwarded (client_get chatTarget p)))"
| "proxy_get OpenAI_completions completionsTarget p =
     (if p = ''create'' then Inr (AsyncFn OpenAICall completionsTarget p)
      else Inr (Forwarded (client_get completionsTarget p)))"
| "proxy_get OpenAI_embeddings embeddingsTarget p =
     (if p = ''create'' then Inr (AsyncFn OpenAIEmbeddings embeddingsTarget p)
      else Inr (Forwarded (client_get embeddingsTarget p)))"
| "proxy_get OpenAI_images imagesTarget p =
     (if p = ''generate'' then Inr (AsyncFn OpenAIImages imagesTarget p)
      else Inr (Forwarded (client_get imagesTarget p)))"
| "proxy_get OpenAI_audio audioTarget p =
     (if p = ''transcriptions'' then new_Proxy (client_get audioTarget p) OpenAI_transcriptions
      else if p = ''speech'' then new_Proxy (client_get audioTarget p) OpenAI_speech
      else Inr (Forwarded (client_get audioTarget p)))"
| "proxy_get OpenAI_transcriptions transcriptionsTarget p =
     (if p = ''create'' then Inr (AsyncFn OpenAIAudioTranscription transcriptionsTarget p)
      else Inr (Forwarded (client_get transcriptionsTarget p)))"
| "proxy_get OpenAI_speech speechTarget p =
     (if p = ''create'' then Inr (AsyncFn OpenAIAudioSpeech speechTarget p)
      else Inr (Forwarded (client_get speechTarget p)))"
| "proxy_get OpenAI_moderations moderationsTarget p =
     (if p = ''create'' then Inr (AsyncFn OpenAIModerations moderationsTarget p)
      else Inr (Forwarded (client_get moderationsTarget p)))"
| "proxy_get Anthropic_client target p =
     (let original = client_get target p
      in if p = ''messages'' then new_Proxy original Anthropic_messages
         else Inr (Forwarded original))"
| "proxy_get Anthropic_messages messagesTarget p =
     (if p = ''create'' then Inr (AsyncFn AnthropicCall messagesTarget p)
      else Inr (Forwarded (client_get messagesTarget p)))"
| "proxy_get Bedrock_client target p =
     (let original = client_get target p
      in if p = ''invokeModel'' \<or> p = ''send'' then Inr (AsyncFn BedrockCall target p)
         else Inr (Forwarded original))"
| "proxy_get Azure_client target p =
     (let original = client_get target p
      in if p = ''chat'' then new_Proxy original Azure_chat
         else Inr (Forwarded original))"
| "proxy_get Azure_chat chatTarget p =
     (if p = ''completions'' then new_Proxy (client_get chatTarget p) Azure_completions
      else Inr (Forwarded (client_get chatTarget p)))"
| "proxy_get Azure_completions completionsTarget p =
     (if p = ''create'' then Inr (AsyncFn AzureOpenAICall completionsTarget p)
      else Inr (Forwarded (client_get completionsTarget p)))"
| "proxy_get Mistral_client target p =
     (let original = client_get target p
      in if p = ''chat'' then new_Proxy original Mistral_chat
         else Inr (Forwarded original))"
| "proxy_get Mistral_chat chatTarget p =
     (if p = ''complete'' \<or> p = ''stream'' then Inr (AsyncFn MistralCall chatTarget p)
      else Inr (Forwarded (client_get chatTarget p)))"

definition wrapOpenAI :: "client \<Rightarrow> failure + wrapped" where
  "wrapOpenAI c = new_Proxy c OpenAI_client"

definition wrapAnthropic :: "client \<Rightarrow> failure + wrapped" where
  "wrapAnthropic c = new_Proxy c Anthropic_client"

definition wrapBedrock :: "client \<Rightarrow> failure + wrapped" where
  "wrapBedrock c = new_Proxy c Bedrock_client"

definition wrapAzureOpenAI :: "client \<Rightarrow> failure + wrapped" where
  "wrapAzureOpenAI c = new_Proxy c Azure_client"

definition wrapMistral :: "client \<Rightarrow> failure + wrapped" where
  "wrapMistral c = new_Proxy c Mistral_client"

text \<open>
  Reading a property of a wrapped value, and following a path of property reads. A
  forwarded value is the client's own: reading a property of \<open>null\<close> or \<open>undefined\<close>
  throws.
\<close>

fun wrapped_get :: "wrapped \<Rightarrow> string \<Rightarrow> failure + wrapped" where
  "wrapped_get (Proxy h target) p = proxy_get h target p"
| "wrapped_get (Forwarded (CVal v)) p = map_sum id (\<lambda>x. Forwarded (CVal x)) (get_prop v p)"
| "wrapped_get (Forwarded c) p = Inr (Forwarded (client_get c p))"
| "wrapped_get (AsyncFn a target q) p = Inr (Forwarded (CVal JUndefined))"

fun get_path :: "wrapped \<Rightarrow> string list \<Rightarrow> failure + wrapped" where
  "get_path v [] = Inr v"
| "get_path v (p # ps) = (case wrapped_get v p of Inl e \<Rightarrow> Inl e | Inr v' \<Rightarrow> get_path v' ps)"

text \<open>
  Calling a wrapped value with one argument. \<open>impl f\<close> is what the client's function \<open>f\<close>
  does. The stand-in function first evaluates \<open>target[p].bind(target)\<close>, which throws a
  \<open>TypeError\<close> unless \<open>target[p]\<close> is a function, and then runs the instrumenting method.
\<close>

fun instrument ::
  "adapter \<Rightarrow> tracer \<Rightarrow> random_fill \<Rightarrow> provider_call \<Rightarrow> jsval \<Rightarrow> (failure + jsval) \<times> tracer" where
  "instrument OpenAICall = instrumentOpenAICall"
| "instrument OpenAIEmbeddings = instrumentOpenAIEmbeddings"
| "instrument OpenAIImages = instrumentOpenAIImages"
| "instrument OpenAIAudioTranscription = instrumentOpenAIAudioTranscription"
| "instrument OpenAIAudioSpeech = instrumentOpenAIAudioSpeech"
| "instrument OpenAIModerations = instrumentOpenAIModerations"
| "instrument AnthropicCall = instrumentAnthropicCall"
| "instrument BedrockCall = instrumentBedrockCall"
| "instrument AzureOpenAICall = instrumentAzureOpenAICall"
| "instrument MistralCall = instrumentMistralCall"

definition plain_call ::
  "provider_call \<Rightarrow> tracer \<Rightarrow> jsval \<Rightarrow> (failure + jsval) \<times> tracer" where
  "plain_call f w arg = (fst (f arg), advance (snd (f arg)) w)"

fun call_wrapped ::
  "(nat \<Rightarrow> provider_call) \<Rightarrow> tracer \<Rightarrow> random_fill \<Rightarrow> wrapped \<Rightarrow> jsval
     \<Rightarrow> (failure + jsval) \<times> tracer" where
  "call_wrapped impl w rnd (AsyncFn a target p) arg =
     (case client_get target p of
        CFn f \<Rightarrow> instrument a w rnd (impl f) arg
      | _ \<Rightarrow> (Inl (TypeError ''bind is not a function''), w))"
| "call_wrapped impl w rnd (Forwarded (CFn f)) arg = plain_call (impl f) w arg"
| "call_wrapped impl w rnd (Proxy h (CFn f)) arg = plain_call (impl f) w arg"
| "call_wrapped impl w rnd v arg = (Inl (TypeError ''not a function''), w)"

text \<open>
  \<open>wrapper.chat.stream(params)\<close> and the like: follow the path from the wrapped client,
  then call what is found there.
\<close>

definition call_path ::
  "(nat \<Rightarrow> provider_call) \<Rightarrow> tracer \<Rightarrow> random_fill \<Rightarrow> wrapped \<Rightarrow> string list \<Rightarrow> jsval
     \<Rightarrow> (failure + jsval) \<times> tracer" where
  "call_path impl w rnd v path arg =
     (case get_path v path of
        Inl e \<Rightarrow> (Inl e, w)
      | Inr m \<Rightarrow> call_wrapped impl w rnd m arg)"

section \<open>Histories, invariants and bookkeeping\<close>

text \<open>
  \<open>closed_spans w\<close> is every span closed so far, in the order of closing: the spans of
  the batches already posted, then the pending ones. \<open>exportSpans\<close> moves spans from the
  second part to the first and leaves the sequence as it is.
\<close>

definition closed_spans :: "tracer \<Rightarrow> span_data list" where
  "closed_spans w = concat (map (\<lambda>r. spans (body r)) (requests w)) @ pendingExports w"

text \<open>
  The invariants. \<open>registry_ok\<close>: the keys of the registry are distinct and every span
  is stored under its own span id. \<open>exporter_ok\<close>: at most one timeout is armed, it is
  the one \<open>exportTimer\<close> refers to, and none is armed while nothing is pending.
  \<open>just_armed\<close>: whatever timeout is armed was armed at the present instant.
\<close>

definition registry_ok :: "tracer \<Rightarrow> bool" where
  "registry_ok w = (distinct (map fst (activeSpans w)) \<and>
                    list_all (\<lambda>(k, sp). spanId sp = k) (activeSpans w))"

definition exporter_ok :: "tracer \<Rightarrow> bool" where
  "exporter_ok w =
     (length (timers w) \<le> 1
      \<and> list_all (\<lambda>(h, d). exportTimer w = Some h) (timers w)
      \<and> (pendingExports w = [] \<longrightarrow> timers w = []))"

text \<open>
  The calls a user of the tracer (and the runtime's clock) can make, and a history of them
  run from a state.
\<close>

datatype op =
    StartSpan "(nat \<Rightarrow> 8 word) \<times> (nat \<Rightarrow> 8 word)" string "trace_context option"
  | SetSpanAttribute string string jsval
  | SetSpanStatus string int "string option"
  | EndSpan string
  | Flush
  | Advance nat

fun apply_op :: "tracer \<Rightarrow> op \<Rightarrow> tracer" where
  "apply_op w (StartSpan rnd nm ctx) = snd (startSpan w rnd nm ctx)"
| "apply_op w (SetSpanAttribute sid key v) = setSpanAttribute w sid key v"
| "apply_op w (SetSpanStatus sid code msg) = setSpanStatus w sid code msg"
| "apply_op w (EndSpan sid) = endSpan w sid"
| "apply_op w Flush = flush w"
| "apply_op w (Advance dt) = advance dt w"

text \<open>
  A sequence of \<open>startSpan\<close> calls with no \<open>endSpan\<close> between them; each call comes with
  its random fillings, its span name and its parent context. \<open>drawn_id\<close> is the span id
  a call draws.
\<close>

type_synonym start_call = "((nat \<Rightarrow> 8 word) \<times> (nat \<Rightarrow> 8 word)) \<times> string \<times> trace_context option"

definition drawn_id :: "start_call \<Rightarrow> string" where
  "drawn_id c = generateSpanId (snd (fst c))"

fun start_all :: "tracer \<Rightarrow> start_call list \<Rightarrow> tracer" where
  "start_all w [] = w"
| "start_all w ((rnd, nm, ctx) # rest) = start_all (snd (startSpan w rnd nm ctx)) rest"

text \<open>
  A trickle of appends: each element is the time that passes since the previous append
  and the id of the span that is then closed.
\<close>

fun trickle :: "tracer \<Rightarrow> (nat \<times> string) list \<Rightarrow> tracer" where
  "trickle w [] = w"
| "trickle w ((dt, sid) # rest) = trickle (endSpan (advance dt w) sid) rest"

definition just_armed :: "tracer \<Rightarrow> bool" where
  "just_armed w = list_all (\<lambda>(h, d). d = now w + 1000) (timers w)"

text \<open>
  Bookkeeping for one intercepted call that started in state \<open>w0\<close> and drew the span id
  \<open>sid\<close>. \<open>in_flight w0 sid sp w\<close>: in \<open>w\<close> the span \<open>sp\<close> is active under \<open>sid\<close>, and the
  closed spans and the rest of the registry are those of \<open>w0\<close>. \<open>span_open\<close> keeps only
  the span's name. \<open>span_closed\<close>: exactly one span, of that name, has been closed since
  \<open>w0\<close>, and nothing is active under \<open>sid\<close>.
\<close>

definition in_flight :: "tracer \<Rightarrow> string \<Rightarrow> span_data \<Rightarrow> tracer \<Rightarrow> bool" where
  "in_flight w0 sid sp w =
     (map_of (activeSpans w) sid = Some sp
      \<and> closed_spans w = closed_spans w0
      \<and> AList.delete sid (activeSpans w) = AList.delete sid (activeSpans w0))"

definition span_open :: "tracer \<Rightarrow> string \<Rightarrow> string \<Rightarrow> tracer \<Rightarrow> bool" where
  "span_open w0 sid nm w = (\<exists>sp. in_flight w0 sid sp w \<and> name sp = nm)"

definition span_closed :: "tracer \<Rightarrow> string \<Rightarrow> string \<Rightarrow> tracer \<Rightarrow> bool" where
  "span_closed w0 sid nm w =
     (\<exists>sp. closed_spans w = closed_spans w0 @ [sp] \<and> name sp = nm
           \<and> activeSpans w = AList.delete sid (activeSpans w0))"

definition try_result_ok ::
  "tracer \<Rightarrow> string \<Rightarrow> string \<Rightarrow> (failure + jsval) \<times> tracer \<Rightarrow> bool" where
  "try_result_ok w0 sid nm r =
     (case r of
        (Inr v, w) \<Rightarrow> span_closed w0 sid nm w
      | (Inl e, w) \<Rightarrow> span_open w0 sid nm w)"

text \<open>The value found in the client itself along a path of property reads.\<close>

fun client_at :: "client \<Rightarrow> string list \<Rightarrow> client" where
  "client_at c [] = c"
| "client_at c (p # ps) = client_at (client_get c p) ps"

text \<open>
  The intercepted call paths: the handler of the wrapper's outer proxy, the path, the
  instrumenting method that the path is routed to, and the name of the span it opens.
\<close>

definition intercepted_paths :: "(handler \<times> string list \<times> adapter \<times> string) list" where
  "intercepted_paths =
     [(OpenAI_client, [''chat'', ''completions'', ''create''], OpenAICall,
         ''openai.chat.completions.create''),
      (OpenAI_client, [''embeddings'', ''create''], OpenAIEmbeddings, ''openai.embeddings.create''),
      (OpenAI_client, [''images'', ''generate''], OpenAIImages, ''openai.images.generate''),
      (OpenAI_client, [''audio'', ''transcriptions'', ''create''], OpenAIAudioTranscription,
         ''openai.audio.transcriptions.create''),
      (OpenAI_client, [''audio'', ''speech'', ''create''], OpenAIAudioSpeech,
         ''openai.audio.speech.create''),
      (OpenAI_client, [''moderations'', ''create''], OpenAIModerations,
         ''openai.moderations.create''),
      (Anthropic_client, [''messages'', ''create''], AnthropicCall, ''anthropic.messages.create''),
      (Bedrock_client, [''invokeModel''], BedrockCall, ''bedrock.invokeModel''),
      (Bedrock_client, [''send''], BedrockCall, ''bedrock.invokeModel''),
      (Azure_client, [''chat'', ''completions'', ''create''], AzureOpenAICall,
         ''azure_openai.chat.completions.create''),
      (Mistral_client, [''chat'', ''complete''], MistralCall, ''mistral.chat.complete''),
      (Mistral_client, [''chat'', ''stream''], MistralCall, ''mistral.chat.complete'')]"

text \<open>
  The usage attributes of a span, in the order they were recorded, and the token count
  a usage field stands for: zero when the field is absent (or holds \<open>undefined\<close> or
  \<open>null\<close>), the number itself when it holds an integral number.
\<close>

definition usage_keys :: "string list" where
  "usage_keys =
     [''gen_ai.usage.prompt_tokens'', ''gen_ai.usage.completion_tokens'',
      ''gen_ai.usage.total_tokens'', ''ai.prompt_tokens'', ''ai.completion_tokens'',
      ''ai.total_tokens'']"

definition usage_attrs :: "span_data \<Rightarrow> (string \<times> any_value) list" where
  "usage_attrs sp = filter (\<lambda>(k, v). k \<in> set usage_keys) (attributes sp)"

fun token_count :: "jsval option \<Rightarrow> int option" where
  "token_count None = Some 0"
| "token_count (Some JUndefined) = Some 0"
| "token_count (Some JNull) = Some 0"
| "token_count (Some (JNum r)) = (if is_integer r then Some \<lfloor>r\<rfloor> else None)"
| "token_count (Some v) = None"

definition no_usage_open :: "tracer \<Rightarrow> string \<Rightarrow> tracer \<Rightarrow> bool" where
  "no_usage_open w0 sid w = (\<exists>sp. in_flight w0 sid sp w \<and> usage_attrs sp = [])"

section \<open>Sample inputs\<close>

text \<open>Concrete inputs for the instances proved below.\<close>

definition zero_bytes :: "nat \<Rightarrow> 8 word" where
  "zero_bytes i = 0"

definition count_bytes :: "nat \<Rightarrow> nat \<Rightarrow> 8 word" where
  "count_bytes n i = of_nat (n + i)"

definition sample_config :: config where
  "sample_config =
     \<lparr> apiKey = ''key'', baseUrl = None, customerId = Some ''customer-1'', debug = False \<rparr>"

definition net_ok :: "nat \<Rightarrow> fetch_result" where
  "net_ok n = Ok (Inr JNull)"

definition net_down :: "nat \<Rightarrow> fetch_result" where
  "net_down n = Rejected (ErrorInstance ''TypeError'' ''fetch failed'')"

definition two_calls :: "start_call list" where
  "two_calls = [((zero_bytes, count_bytes 1), ''first'', None),
                ((zero_bytes, count_bytes 2), ''second'', None)]"

definition two_open :: tracer where
  "two_open = start_all (new_tracer sample_config 0 net_ok) two_calls"

definition first_span :: span_data where
  "first_span =
     \<lparr> traceId = ''00000000000000000000000000000000'', spanId = ''0102030405060708'',
       parentSpanId = None, name = ''first'', kind = ''client'',
       startTimeUnixNano = ''0'', endTimeUnixNano = [], attributes = [], status = None,
       events = [] \<rparr>"

definition one_pending_down :: tracer where
  "one_pending_down =
     endSpan (start_all (new_tracer sample_config 0 net_down) two_calls) ''0102030405060708''"

definition ten_open :: tracer where
  "ten_open =
     start_all (new_tracer sample_config 0 net_ok)
       (map (\<lambda>n. ((zero_bytes, count_bytes n), ''call'', None)) [1..<11])"

definition nine_appends :: "(nat \<times> string) list" where
  "nine_appends = map (\<lambda>n. (999, generateSpanId (count_bytes n))) [1..<10]"

definition nine_closed :: tracer where
  "nine_closed = trickle ten_open nine_appends"

definition tenth_id :: string where
  "tenth_id = generateSpanId (count_bytes 10)"

definition sample_fill :: random_fill where
  "sample_fill = (zero_bytes, count_bytes 1)"

definition chat_params :: jsval where
  "chat_params = JObj [(''model'', JStr ''gpt-4''), (''temperature'', JNum 0)]"

definition rejecting_call :: provider_call where
  "rejecting_call params = (Inl (NonError ''rate limited''), 5)"

definition throwing_call :: provider_call where
  "throwing_call params = (Inl (ErrorInstance ''Error'' ''connection reset''), 5)"

definition mistral_client :: client where
  "mistral_client = CObj [(''chat'', CObj [(''complete'', CFn 0), (''stream'', CFn 1)])]"

definition sample_impl :: "nat \<Rightarrow> provider_call" where
  "sample_impl f params = (Inr (JObj [(''id'', JStr ''response-1'')]), 120)"

definition anthropic_response :: jsval where
  "anthropic_response =
     JObj [(''usage'', JObj [(''input_tokens'', JNum 7), (''output_tokens'', JNum 3)])]"

definition anthropic_call :: provider_call where
  "anthropic_call params = (Inr anthropic_response, 120)"

definition plain_response_call :: provider_call where
  "plain_response_call params = (Inr (JObj [(''id'', JStr ''response-1'')]), 120)"

definition bedrock_command :: jsval where
  "bedrock_command = JObj [(''input'', JObj [(''modelId'', JStr ''amazon.titan-image'')])]"

definition malformed_body_response :: jsval where
  "malformed_body_response =
     JObj [(''body'', JBody (Inl (ErrorInstance ''SyntaxError'' ''Unexpected token in JSON'')))]"

definition malformed_body_call :: provider_call where
  "malformed_body_call command = (Inr malformed_body_response, 120)"

definition partial_client :: client where
  "partial_client = CObj [(''chat'', CObj [(''completions'', CObj [(''create'', CFn 0)])]),
                          (''apiKey'', CVal (JStr ''sk-test''))]"

section \<open>Properties of the exporter and the registry\<close>

lemma exportSpans_fields [simp]:
  "activeSpans (exportSpans w) = activeSpans w"
  "pendingExports (exportSpans w) = []"
  "timers (exportSpans w) = timers w"
  "exportTimer (exportSpans w) = exportTimer w"
  "now (exportSpans w) = now w"
  "next_handle (exportSpans w) = next_handle w"
  "config (exportSpans w) = config w"
  "net (exportSpans w) = net w"
  by (simp_all add: exportSpans_def Let_def)

lemma closed_spans_exportSpans [simp]: "closed_spans (exportSpans w) = closed_spans w"
  by (simp add: closed_spans_def exportSpans_def Let_def export_request_def export_payload_def)

lemma clearTimeout_fields [simp]:
  "activeSpans (clearTimeout w h) = activeSpans w"
  "pendingExports (clearTimeout w h) = pendingExports w"
  "exportTimer (clearTimeout w h) = exportTimer w"
  "now (clearTimeout w h) = now w"
  "next_handle (clearTimeout w h) = next_handle w"
  "requests (clearTimeout w h) = requests w"
  "console (clearTimeout w h) = console w"
  "config (clearTimeout w h) = config w"
  "net (clearTimeout w h) = net w"
  "timers (clearTimeout w h) = filter (\<lambda>(h', d). h' \<noteq> h) (timers w)"
  by (simp_all add: clearTimeout_def)

lemma cancel_fields [simp]:
  "activeSpans (case t of Some h \<Rightarrow> clearTimeout w h | None \<Rightarrow> w) = activeSpans w"
  "pendingExports (case t of Some h \<Rightarrow> clearTimeout w h | None \<Rightarrow> w) = pendingExports w"
  "requests (case t of Some h \<Rightarrow> clearTimeout w h | None \<Rightarrow> w) = requests w"
  "console (case t of Some h \<Rightarrow> clearTimeout w h | None \<Rightarrow> w) = console w"
  "config (case t of Some h \<Rightarrow> clearTimeout w h | None \<Rightarrow> w) = config w"
  "now (case t of Some h \<Rightarrow> clearTimeout w h | None \<Rightarrow> w) = now w"
  "net (case t of Some h \<Rightarrow> clearTimeout w h | None \<Rightarrow> w) = net w"
  "next_handle (case t of Some h \<Rightarrow> clearTimeout w h | None \<Rightarrow> w) = next_handle w"
  "exportTimer (case t of Some h \<Rightarrow> clearTimeout w h | None \<Rightarrow> w) = exportTimer w"
  by (simp_all split: option.splits)

lemma cancel_timers:
  "exporter_ok w \<Longrightarrow> timers (case exportTimer w of Some h \<Rightarrow> clearTimeout w h | None \<Rightarrow> w) = []"
  by (cases "timers w") (auto simp: exporter_ok_def split: option.splits)

lemma scheduleExport_active [simp]: "activeSpans (scheduleExport w) = activeSpans w"
  by (simp add: scheduleExport_def Let_def setTimeout_def split: prod.splits)

lemma scheduleExport_closed [simp]: "closed_spans (scheduleExport w) = closed_spans w"
  by (simp add: scheduleExport_def Let_def setTimeout_def closed_spans_def[of "_\<lparr>exportTimer := _\<rparr>"] split: prod.splits)
   (simp add: closed_spans_def)

lemma exporter_ok_push:
  "exporter_ok w \<Longrightarrow> exporter_ok (w\<lparr>activeSpans := a, pendingExports := pendingExports w @ [sp]\<rparr>)"
  by (simp add: exporter_ok_def)

lemma scheduleExport_ok:
  "exporter_ok w \<Longrightarrow> pendingExports w \<noteq> [] \<Longrightarrow> exporter_ok (scheduleExport w)"
  by (simp add: scheduleExport_def Let_def setTimeout_def cancel_timers exporter_ok_def[of "exportSpans _"]
        exporter_ok_def[of "_\<lparr>exportTimer := _\<rparr>"] split: prod.splits)

lemma endSpan_ok: "exporter_ok w \<Longrightarrow> exporter_ok (endSpan w sid)"
  by (simp add: endSpan_def scheduleExport_ok exporter_ok_push split: option.splits)

lemma flush_ok: "exporter_ok w \<Longrightarrow> exporter_ok (flush w)"
  by (simp add: flush_def cancel_timers exporter_ok_def[of "exportSpans _"])

lemma fire_fields [simp]:
  "activeSpans (fire w h) = activeSpans w"
  "now (fire w h) = now w"
  "config (fire w h) = config w"
  "net (fire w h) = net w"
  "closed_spans (fire w h) = closed_spans w"
  by (simp_all add: fire_def) (simp add: closed_spans_def)

lemma foldl_fire_fields [simp]:
  "activeSpans (foldl (\<lambda>s (h, d). fire s h) w ts) = activeSpans w"
  "now (foldl (\<lambda>s (h, d). fire s h) w ts) = now w"
  "config (foldl (\<lambda>s (h, d). fire s h) w ts) = config w"
  "net (foldl (\<lambda>s (h, d). fire s h) w ts) = net w"
  "closed_spans (foldl (\<lambda>s (h, d). fire s h) w ts) = closed_spans w"
  by (induction ts arbitrary: w) auto

lemma advance_ok: "exporter_ok w \<Longrightarrow> exporter_ok (advance dt w)"
proof (cases "timers w")
  case Nil
  then show "exporter_ok w \<Longrightarrow> exporter_ok (advance dt w)"
    by (simp add: advance_def Let_def exporter_ok_def)
next
  case (Cons t ts)
  assume ok: "exporter_ok w"
  with Cons have ts: "ts = []" by (simp add: exporter_ok_def)
  obtain h d where t: "t = (h, d)" by (cases t)
  show "exporter_ok (advance dt w)"
    using ok Cons ts t
    by (simp add: advance_def Let_def fire_def exporter_ok_def)
qed

lemma advance_fields [simp]:
  "activeSpans (advance dt w) = activeSpans w"
  "now (advance dt w) = now w + int dt"
  "config (advance dt w) = config w"
  "net (advance dt w) = net w"
  "closed_spans (advance dt w) = closed_spans w"
  by (simp_all add: advance_def Let_def) (simp add: closed_spans_def)

lemma set_update_subset: "set (AList.update k v al) \<subseteq> insert (k, v) (set al)"
  by (induction al) auto

lemma list_all_update:
  "list_all P al \<Longrightarrow> P (k, v) \<Longrightarrow> list_all P (AList.update k v al)"
  using set_update_subset [of k v al] by (auto simp: list_all_iff)

lemma list_all_delete: "list_all P al \<Longrightarrow> list_all P (AList.delete k al)"
  by (auto simp: list_all_iff AList.delete_eq)

lemma registry_ok_update:
  "registry_ok w \<Longrightarrow> spanId sp = k \<Longrightarrow>
   registry_ok (w\<lparr>activeSpans := AList.update k sp (activeSpans w)\<rparr>)"
  by (simp add: registry_ok_def distinct_update list_all_update)

lemma registry_ok_lookup:
  "registry_ok w \<Longrightarrow> map_of (activeSpans w) k = Some sp \<Longrightarrow> spanId sp = k"
  by (auto simp: registry_ok_def list_all_iff dest!: map_of_SomeD)

lemma startSpan_ok: "registry_ok w \<Longrightarrow> registry_ok (snd (startSpan w rnd nm ctx))"
  by (simp add: startSpan_def Let_def registry_ok_update)

lemma setSpanAttribute_ok: "registry_ok w \<Longrightarrow> registry_ok (setSpanAttribute w sid key v)"
  by (auto simp: setSpanAttribute_def registry_ok_update registry_ok_lookup split: option.splits)

lemma setSpanStatus_ok: "registry_ok w \<Longrightarrow> registry_ok (setSpanStatus w sid code msg)"
  by (auto simp: setSpanStatus_def registry_ok_update registry_ok_lookup split: option.splits)

lemma registry_ok_cong: "activeSpans w' = activeSpans w \<Longrightarrow> registry_ok w' = registry_ok w"
  by (simp add: registry_ok_def)

lemma endSpan_active:
  "activeSpans (endSpan w sid) = AList.delete sid (activeSpans w)"
  by (auto simp: endSpan_def map_of_eq_None_iff split: option.splits)

lemma endSpan_registry_ok: "registry_ok w \<Longrightarrow> registry_ok (endSpan w sid)"
  by (simp add: registry_ok_def endSpan_active distinct_delete list_all_delete)

lemma flush_active [simp]: "activeSpans (flush w) = activeSpans w"
  by (simp add: flush_def)

lemma apply_op_ok: "registry_ok w \<Longrightarrow> registry_ok (apply_op w x)"
  by (cases x)
     (simp_all add: startSpan_ok setSpanAttribute_ok setSpanStatus_ok endSpan_registry_ok
        registry_ok_cong [of "flush w"] registry_ok_cong [of "advance _ w"])

lemma run_ok: "registry_ok w \<Longrightarrow> registry_ok (foldl apply_op w ops)"
  by (induction ops arbitrary: w) (simp_all add: apply_op_ok)

lemma new_tracer_ok: "registry_ok (new_tracer cfg t0 nw)"
  by (simp add: registry_ok_def new_tracer_def)

lemma registry_ok_distinct:
  assumes ok: "registry_ok w"
  shows "distinct (map (\<lambda>(k, sp). spanId sp) (activeSpans w))"
proof -
  from ok have eq: "map (\<lambda>(k, sp). spanId sp) (activeSpans w) = map fst (activeSpans w)"
    by (auto simp: registry_ok_def list_all_iff)
  from ok have d: "distinct (map fst (activeSpans w))"
    by (simp add: registry_ok_def)
  show ?thesis unfolding eq by (rule d)
qed

text \<open>
  C8: in every state the tracer reaches from its initial state through any history of
  calls, whatever bytes the random source returns for each identifier, the span ids of
  the active spans are pairwise distinct. The registry is keyed by span id and every
  entry carries its key as \<open>spanId\<close>; a \<open>startSpan\<close> that draws the id of an active span
  replaces that entry.
\<close>

theorem active_span_ids_distinct:
  "distinct (map (\<lambda>(k, sp). spanId sp) (activeSpans (foldl apply_op (new_tracer cfg t0 nw) ops)))"
  by (rule registry_ok_distinct) (rule run_ok, rule new_tracer_ok)

lemma length_update:
  "length (AList.update k v al) = (if k \<in> fst ` set al then length al else Suc (length al))"
  by (induction al) auto

lemma startSpan_keys:
  "fst ` set (activeSpans (snd (startSpan w rnd nm ctx))) =
     insert (generateSpanId (snd rnd)) (fst ` set (activeSpans w))"
  by (simp add: startSpan_def Let_def dom_update)

lemma startSpan_length:
  "length (activeSpans (snd (startSpan w rnd nm ctx))) =
     (if generateSpanId (snd rnd) \<in> fst ` set (activeSpans w) then length (activeSpans w)
      else Suc (length (activeSpans w)))"
  by (simp add: startSpan_def Let_def length_update)

lemma start_all_length:
  "distinct (map drawn_id calls) \<Longrightarrow>
   list_all (\<lambda>c. drawn_id c \<notin> fst ` set (activeSpans w)) calls \<Longrightarrow>
   length (activeSpans (start_all w calls)) = length (activeSpans w) + length calls"
proof (induction calls arbitrary: w)
  case Nil
  then show ?case by simp
next
  case (Cons c cs)
  obtain rnd nm ctx where c: "c = (rnd, nm, ctx)" by (cases c)
  let ?w = "snd (startSpan w rnd nm ctx)"
  have fresh: "drawn_id c' \<notin> fst ` set (activeSpans ?w)" if "c' \<in> set cs" for c'
  proof -
    from Cons.prems(1) have "drawn_id c \<notin> drawn_id ` set cs" by simp
    with that have "drawn_id c' \<noteq> drawn_id c" by (metis imageI)
    moreover from that Cons.prems(2) have "drawn_id c' \<notin> fst ` set (activeSpans w)"
      by (simp add: list_all_iff)
    ultimately show ?thesis by (simp add: startSpan_keys c drawn_id_def)
  qed
  then have "list_all (\<lambda>c. drawn_id c \<notin> fst ` set (activeSpans ?w)) cs"
    by (simp add: list_all_iff)
  with Cons have "length (activeSpans (start_all ?w cs)) = length (activeSpans ?w) + length cs"
    by simp
  with Cons.prems show ?case by (simp add: startSpan_length c drawn_id_def)
qed

lemma endSpan_absent: "map_of (activeSpans (endSpan w sid)) sid = None"
  by (simp add: endSpan_active delete_conv')

lemma endSpan_twice: "endSpan (endSpan w sid) sid = endSpan w sid"
  using endSpan_absent [of w sid] by (simp add: endSpan_def [of "endSpan w sid"])

lemma endSpan_closed:
  "map_of (activeSpans w) sid = Some sp \<Longrightarrow>
   closed_spans (endSpan w sid) = closed_spans w @ [sp\<lparr>endTimeUnixNano := show_int (now w * 1000000)\<rparr>]"
  by (simp add: endSpan_def) (simp add: closed_spans_def)

lemma endSpan_inactive: "map_of (activeSpans w) sid = None \<Longrightarrow> endSpan w sid = w"
  by (simp add: endSpan_def)

subsection \<open>Opening and closing spans\<close>

text \<open>
  C5, as the code has it: a sequence of \<open>startSpan\<close> calls that draw pairwise distinct
  span ids, none of them active already, raises the number of active spans by the number
  of calls. After \<open>endSpan w sid\<close> the id is not active; if it was active, its span
  (stamped with the end time) is appended once to the closed spans; and a second
  \<open>endSpan\<close> on the same id changes nothing in the whole state.
\<close>

theorem span_count_and_close:
  "(distinct (map drawn_id calls) \<and>
    list_all (\<lambda>c. drawn_id c \<notin> fst ` set (activeSpans w)) calls
      \<longrightarrow> length (activeSpans (start_all w calls)) = length (activeSpans w) + length calls)
   \<and> map_of (activeSpans (endSpan w sid)) sid = None
   \<and> (map_of (activeSpans w) sid = Some sp \<longrightarrow>
        closed_spans (endSpan w sid)
          = closed_spans w @ [sp\<lparr>endTimeUnixNano := show_int (now w * 1000000)\<rparr>])
   \<and> endSpan (endSpan w sid) sid = endSpan w sid"
  by (simp add: start_all_length endSpan_absent endSpan_closed endSpan_twice)

text \<open>
  C5 as stated fails when the random source repeats itself: two \<open>startSpan\<close> calls
  that both draw the all-zero span id leave one active span, the second having replaced
  the first in the registry.
\<close>

theorem span_count_collision:
  "length (activeSpans (start_all (new_tracer sample_config 0 net_ok)
      [((zero_bytes, zero_bytes), ''first'', None),
       ((zero_bytes, zero_bytes), ''second'', None)])) = 1"
  by (simp add: startSpan_def new_tracer_def Let_def)

theorem span_count_and_close_witness:
  "distinct (map drawn_id two_calls)
   \<and> list_all (\<lambda>c. drawn_id c \<notin> fst ` set (activeSpans (new_tracer sample_config 0 net_ok)))
         two_calls
   \<and> length (activeSpans two_open) = 2
   \<and> map_of (activeSpans two_open) ''0102030405060708'' = Some first_span
   \<and> map_of (activeSpans (endSpan two_open ''0102030405060708'')) ''0102030405060708'' = None
   \<and> closed_spans (endSpan two_open ''0102030405060708'')
       = [first_span\<lparr>endTimeUnixNano := ''0''\<rparr>]
   \<and> endSpan (endSpan two_open ''0102030405060708'') ''0102030405060708''
       = endSpan two_open ''0102030405060708''"
proof -
  let ?w0 = "new_tracer sample_config 0 net_ok"
  let ?sid = "''0102030405060708''"
  have d: "distinct (map drawn_id two_calls)" by code_simp
  have f: "list_all (\<lambda>c. drawn_id c \<notin> fst ` set (activeSpans ?w0)) two_calls"
    by (simp add: new_tracer_def list_all_iff)
  have a: "map_of (activeSpans two_open) ?sid = Some first_span" by code_simp
  have c: "closed_spans two_open = []" by code_simp
  have t: "show_int (now two_open * 1000000) = ''0''" by code_simp
  have n: "length (activeSpans ?w0) + length two_calls = 2" by code_simp
  from span_count_and_close [of two_calls ?w0 ?sid first_span] d f n
  have 1: "length (activeSpans two_open) = 2" by (simp add: two_open_def)
  from span_count_and_close [of two_calls two_open ?sid first_span] a c t
  have 2: "map_of (activeSpans (endSpan two_open ?sid)) ?sid = None"
    and 3: "closed_spans (endSpan two_open ?sid) = [first_span\<lparr>endTimeUnixNano := ''0''\<rparr>]"
    and 4: "endSpan (endSpan two_open ?sid) ?sid = endSpan two_open ?sid"
    by simp_all
  from d f 1 a 2 3 4 show ?thesis by blast
qed

lemma startSpan_fields [simp]:
  "pendingExports (snd (startSpan w rnd nm ctx)) = pendingExports w"
  "timers (snd (startSpan w rnd nm ctx)) = timers w"
  "exportTimer (snd (startSpan w rnd nm ctx)) = exportTimer w"
  "requests (snd (startSpan w rnd nm ctx)) = requests w"
  "console (snd (startSpan w rnd nm ctx)) = console w"
  "now (snd (startSpan w rnd nm ctx)) = now w"
  "config (snd (startSpan w rnd nm ctx)) = config w"
  "net (snd (startSpan w rnd nm ctx)) = net w"
  "next_handle (snd (startSpan w rnd nm ctx)) = next_handle w"
  by (simp_all add: startSpan_def Let_def)

lemma setSpanAttribute_fields [simp]:
  "pendingExports (setSpanAttribute w sid key v) = pendingExports w"
  "timers (setSpanAttribute w sid key v) = timers w"
  "exportTimer (setSpanAttribute w sid key v) = exportTimer w"
  "requests (setSpanAttribute w sid key v) = requests w"
  "console (setSpanAttribute w sid key v) = console w"
  "now (setSpanAttribute w sid key v) = now w"
  "config (setSpanAttribute w sid key v) = config w"
  "net (setSpanAttribute w sid key v) = net w"
  "next_handle (setSpanAttribute w sid key v) = next_handle w"
  by (simp_all add: setSpanAttribute_def split: option.splits)

lemma setSpanStatus_fields [simp]:
  "pendingExports (setSpanStatus w sid code msg) = pendingExports w"
  "timers (setSpanStatus w sid code msg) = timers w"
  "exportTimer (setSpanStatus w sid code msg) = exportTimer w"
  "requests (setSpanStatus w sid code msg) = requests w"
  "console (setSpanStatus w sid code msg) = console w"
  "now (setSpanStatus w sid code msg) = now w"
  "config (setSpanStatus w sid code msg) = config w"
  "net (setSpanStatus w sid code msg) = net w"
  "next_handle (setSpanStatus w sid code msg) = next_handle w"
  by (simp_all add: setSpanStatus_def split: option.splits)

lemma closed_spans_cong:
  "requests w' = requests w \<Longrightarrow> pendingExports w' = pendingExports w \<Longrightarrow>
   closed_spans w' = closed_spans w"
  by (simp add: closed_spans_def)

lemma exporter_ok_cong:
  "timers w' = timers w \<Longrightarrow> exportTimer w' = exportTimer w \<Longrightarrow>
   pendingExports w' = pendingExports w \<Longrightarrow> exporter_ok w' = exporter_ok w"
  by (simp add: exporter_ok_def)

lemma closed_spans_registry [simp]:
  "closed_spans (snd (startSpan w rnd nm ctx)) = closed_spans w"
  "closed_spans (setSpanAttribute w sid key v) = closed_spans w"
  "closed_spans (setSpanStatus w sid code msg) = closed_spans w"
  by (rule closed_spans_cong; simp)+

lemma closed_spans_cancel [simp]:
  "closed_spans (case t of Some h \<Rightarrow> clearTimeout w h | None \<Rightarrow> w) = closed_spans w"
  by (rule closed_spans_cong; simp)

lemma closed_spans_flush [simp]: "closed_spans (flush w) = closed_spans w"
  by (simp add: flush_def)

lemma exporter_ok_registry [simp]:
  "exporter_ok (snd (startSpan w rnd nm ctx)) = exporter_ok w"
  "exporter_ok (setSpanAttribute w sid key v) = exporter_ok w"
  "exporter_ok (setSpanStatus w sid code msg) = exporter_ok w"
  by (rule exporter_ok_cong; simp)+

lemma apply_op_exporter_ok: "exporter_ok w \<Longrightarrow> exporter_ok (apply_op w x)"
  by (cases x)
     (simp_all add: endSpan_ok flush_ok advance_ok)

lemma run_exporter_ok: "exporter_ok w \<Longrightarrow> exporter_ok (foldl apply_op w ops)"
  by (induction ops arbitrary: w) (simp_all add: apply_op_exporter_ok)

lemma new_tracer_exporter_ok: "exporter_ok (new_tracer cfg t0 nw)"
  by (simp add: exporter_ok_def new_tracer_def)

lemma reachable_exporter_ok: "exporter_ok (foldl apply_op (new_tracer cfg t0 nw) ops)"
  by (rule run_exporter_ok) (rule new_tracer_exporter_ok)

lemma endSpan_closed_prefix: "prefix (closed_spans w) (closed_spans (endSpan w sid))"
  by (cases "map_of (activeSpans w) sid") (simp_all add: endSpan_inactive endSpan_closed)

lemma apply_op_closed_prefix: "prefix (closed_spans w) (closed_spans (apply_op w x))"
  by (cases x) (simp_all add: endSpan_closed_prefix)

lemma run_closed_prefix: "prefix (closed_spans w) (closed_spans (foldl apply_op w ops))"
proof (induction ops arbitrary: w)
  case Nil
  show ?case by simp
next
  case (Cons x xs)
  have "prefix (closed_spans w) (closed_spans (apply_op w x))"
    by (rule apply_op_closed_prefix)
  also have "prefix (closed_spans (apply_op w x)) (closed_spans (foldl apply_op (apply_op w x) xs))"
    by (rule Cons.IH)
  finally show ?case by simp
qed

lemma setSpanAttribute_active_eq:
  "map_of (activeSpans w) sid = Some sp \<Longrightarrow>
   setSpanAttribute w sid key v =
     w\<lparr>activeSpans :=
         AList.update sid (sp\<lparr>attributes := attributes sp @ [(key, encodeValue v)]\<rparr>)
           (activeSpans w)\<rparr>"
  by (simp add: setSpanAttribute_def)

lemma setSpanAttribute_inactive: "map_of (activeSpans w) sid = None \<Longrightarrow> setSpanAttribute w sid key v = w"
  by (simp add: setSpanAttribute_def)

lemma setSpanStatus_inactive: "map_of (activeSpans w) sid = None \<Longrightarrow> setSpanStatus w sid code msg = w"
  by (simp add: setSpanStatus_def)

lemma setSpanAttribute_lookup:
  "map_of (activeSpans (setSpanAttribute w sid key v)) s =
     (if s = sid then map_option (\<lambda>sp. sp\<lparr>attributes := attributes sp @ [(key, encodeValue v)]\<rparr>)
                       (map_of (activeSpans w) sid)
      else map_of (activeSpans w) s)"
  by (simp add: setSpanAttribute_def update_conv' split: option.splits)

lemma setSpanStatus_lookup:
  "map_of (activeSpans (setSpanStatus w sid code msg)) s =
     (if s = sid then map_option (\<lambda>sp. sp\<lparr>status := Some (code, msg)\<rparr>) (map_of (activeSpans w) sid)
      else map_of (activeSpans w) s)"
  by (simp add: setSpanStatus_def update_conv' split: option.splits)

lemma startSpan_lookup_other:
  "s \<noteq> generateSpanId (snd rnd) \<Longrightarrow>
   map_of (activeSpans (snd (startSpan w rnd nm ctx))) s = map_of (activeSpans w) s"
  by (simp add: startSpan_def Let_def update_conv')

lemma endSpan_lookup:
  "map_of (activeSpans (endSpan w sid)) s = (if s = sid then None else map_of (activeSpans w) s)"
  by (simp add: endSpan_active delete_conv')

lemma attributes_grow:
  assumes "map_of (activeSpans w) s = Some a"
    and "map_of (activeSpans (apply_op w x)) s = Some b"
    and "\<forall>rnd nm ctx. x = StartSpan rnd nm ctx \<longrightarrow> generateSpanId (snd rnd) \<noteq> s"
  shows "prefix (attributes a) (attributes b)"
  using assms
  by (cases x)
     (auto simp: startSpan_lookup_other setSpanAttribute_lookup setSpanStatus_lookup endSpan_lookup
        split: if_splits)

subsection \<open>Attributes\<close>

text \<open>
  C9: \<open>setSpanAttribute\<close> on an active span id appends the key with the encoded value to
  that span's attribute list and changes nothing else; on an id that is not active
  (unknown, or closed by \<open>endSpan\<close>) it returns the state as it is, and it cannot fail.
  An active span's attribute list only grows: under every call other than a \<open>startSpan\<close>
  that draws the same id, the old list is a prefix of the new one. Closed spans never
  change: the sequence of closed spans is only extended, in every history of calls.
\<close>

theorem setSpanAttribute_appends_or_drops:
  "(map_of (activeSpans w) sid = Some sp \<longrightarrow>
      setSpanAttribute w sid key v =
        w\<lparr>activeSpans :=
            AList.update sid (sp\<lparr>attributes := attributes sp @ [(key, encodeValue v)]\<rparr>)
              (activeSpans w)\<rparr>)
   \<and> (map_of (activeSpans w) sid = None \<longrightarrow> setSpanAttribute w sid key v = w)
   \<and> setSpanAttribute (endSpan w sid) sid key v = endSpan w sid
   \<and> (map_of (activeSpans w) s = Some a \<and> map_of (activeSpans (apply_op w x)) s = Some b
        \<and> (\<forall>rnd nm ctx. x = StartSpan rnd nm ctx \<longrightarrow> generateSpanId (snd rnd) \<noteq> s)
      \<longrightarrow> prefix (attributes a) (attributes b))
   \<and> prefix (closed_spans w) (closed_spans (foldl apply_op w ops))"
  using attributes_grow [of w s a x b]
  by (simp add: setSpanAttribute_active_eq setSpanAttribute_inactive endSpan_absent
        run_closed_prefix)

theorem setSpanAttribute_appends_or_drops_witness:
  "map_of (activeSpans two_open) ''0102030405060708'' = Some first_span
   \<and> setSpanAttribute two_open ''0102030405060708'' ''ai.model'' (JStr ''gpt-4'') =
       two_open\<lparr>activeSpans :=
         AList.update ''0102030405060708''
           (first_span\<lparr>attributes := [(''ai.model'', StringValue ''gpt-4'')]\<rparr>)
           (activeSpans two_open)\<rparr>
   \<and> map_of (activeSpans two_open) ''ffffffffffffffff'' = None
   \<and> setSpanAttribute two_open ''ffffffffffffffff'' ''ai.model'' (JStr ''gpt-4'') = two_open
   \<and> setSpanAttribute (endSpan two_open ''0102030405060708'') ''0102030405060708''
         ''ai.model'' (JStr ''gpt-4'')
       = endSpan two_open ''0102030405060708''
   \<and> prefix (attributes first_span)
        (attributes (first_span\<lparr>attributes := [(''ai.model'', StringValue ''gpt-4'')]\<rparr>))
   \<and> prefix (closed_spans two_open)
        (closed_spans (foldl apply_op two_open [EndSpan ''0102030405060708'', Flush]))"
proof -
  let ?sid = "''0102030405060708''"
  let ?x = "SetSpanAttribute ?sid ''ai.model'' (JStr ''gpt-4'')"
  let ?b = "first_span\<lparr>attributes := [(''ai.model'', StringValue ''gpt-4'')]\<rparr>"
  have a: "map_of (activeSpans two_open) ?sid = Some first_span" by code_simp
  have n: "map_of (activeSpans two_open) ''ffffffffffffffff'' = None" by code_simp
  have e: "attributes first_span = []" by (simp add: first_span_def)
  have enc: "encodeValue (JStr ''gpt-4'') = StringValue ''gpt-4''" by (simp add: encodeValue_def)
  have b: "map_of (activeSpans (apply_op two_open ?x)) ?sid = Some ?b"
    using a by (simp add: setSpanAttribute_lookup e enc)
  have x: "\<forall>rnd nm ctx. ?x = StartSpan rnd nm ctx \<longrightarrow> generateSpanId (snd rnd) \<noteq> ?sid"
    by simp
  note T1 = setSpanAttribute_appends_or_drops
    [of two_open ?sid first_span "''ai.model''" "JStr ''gpt-4''" ?sid first_span ?x ?b
       "[EndSpan ?sid, Flush]"]
  note T2 = setSpanAttribute_appends_or_drops
    [of two_open "''ffffffffffffffff''" first_span "''ai.model''" "JStr ''gpt-4''"]
  from T1 a e enc have 1: "setSpanAttribute two_open ?sid ''ai.model'' (JStr ''gpt-4'') =
       two_open\<lparr>activeSpans := AList.update ?sid ?b (activeSpans two_open)\<rparr>"
    by simp
  from T2 n have 2: "setSpanAttribute two_open ''ffffffffffffffff'' ''ai.model'' (JStr ''gpt-4'') = two_open"
    by blast
  from T1 have 3: "setSpanAttribute (endSpan two_open ?sid) ?sid ''ai.model'' (JStr ''gpt-4'')
       = endSpan two_open ?sid"
    by blast
  from T1 a b x have 4: "prefix (attributes first_span) (attributes ?b)" by blast
  from T1 have 5: "prefix (closed_spans two_open)
        (closed_spans (foldl apply_op two_open [EndSpan ?sid, Flush]))"
    by blast
  from a 1 n 2 3 4 5 show ?thesis by blast
qed

subsection \<open>Flushing\<close>

text \<open>
  C7: in a state that satisfies the exporter's invariant (every reachable state does),
  \<open>flush\<close> leaves no pending span and no armed timer and does not touch the registry.
  With nothing pending it returns the state unchanged. Otherwise it issues exactly one
  request, carrying the spans that were pending in their order, and writes to the
  console what the outcome of that request calls for: one error line when the send
  fails, nothing else. Whatever the outcome, the batch is gone: the pending sequence is
  empty, a second \<open>flush\<close> does nothing, and the passing of time afterwards only moves the
  clock (no timer is left to send anything again).
\<close>

theorem flush_sends_once:
  assumes "exporter_ok w"
  shows "pendingExports (flush w) = [] \<and> timers (flush w) = []
   \<and> activeSpans (flush w) = activeSpans w
   \<and> (pendingExports w = [] \<longrightarrow> flush w = w)
   \<and> (pendingExports w \<noteq> [] \<longrightarrow>
        requests (flush w) =
          requests w @ [export_request (config w) (export_payload (config w) (pendingExports w))]
        \<and> console (flush w) = console w @ export_console (net w (length (requests w))))
   \<and> (pendingExports w \<noteq> [] \<and> net w (length (requests w)) = Rejected e \<longrightarrow>
        console (flush w) = console w @ [ExportError e])
   \<and> (pendingExports w \<noteq> [] \<and> net w (length (requests w)) = NotOk (Inr txt) \<longrightarrow>
        console (flush w) = console w @ [ExportFailed txt])
   \<and> flush (flush w) = flush w
   \<and> advance dt (flush w) = (flush w)\<lparr>now := now (flush w) + int dt\<rparr>"
proof -
  let ?c = "case exportTimer w of Some h \<Rightarrow> clearTimeout w h | None \<Rightarrow> w"
  from assms have t: "timers ?c = []" by (rule cancel_timers)
  have empty: "flush w = w" if "pendingExports w = []"
  proof -
    from that assms have "timers w = []" by (simp add: exporter_ok_def)
    then have "?c = w" by (simp add: clearTimeout_def split: option.splits)
    with that show ?thesis by (simp add: flush_def exportSpans_def)
  qed
  have sent: "requests (flush w) =
          requests w @ [export_request (config w) (export_payload (config w) (pendingExports w))]
        \<and> console (flush w) = console w @ export_console (net w (length (requests w)))"
    if "pendingExports w \<noteq> []"
    using that by (simp add: flush_def exportSpans_def Let_def)
  have ft: "timers (flush w) = []" using t by (simp add: flush_def)
  have fp: "pendingExports (flush w) = []" by (simp add: flush_def)
  from assms have "exporter_ok (flush w)" by (rule flush_ok)
  then have again: "flush (flush w) = flush w"
    using ft fp by (simp add: flush_def [of "flush w"] exportSpans_def clearTimeout_def split: option.splits)
  have adv: "advance dt (flush w) = (flush w)\<lparr>now := now (flush w) + int dt\<rparr>"
    using ft by (simp add: advance_def Let_def)
  from empty sent ft fp again adv show ?thesis by auto
qed

theorem flush_sends_once_witness:
  "exporter_ok one_pending_down
   \<and> pendingExports one_pending_down = [first_span\<lparr>endTimeUnixNano := ''0''\<rparr>]
   \<and> timers one_pending_down = [(0, 1000)]
   \<and> pendingExports (flush one_pending_down) = []
   \<and> timers (flush one_pending_down) = []
   \<and> requests (flush one_pending_down) =
       [export_request sample_config
          (export_payload sample_config [first_span\<lparr>endTimeUnixNano := ''0''\<rparr>])]
   \<and> console (flush one_pending_down) = [ExportError (ErrorInstance ''TypeError'' ''fetch failed'')]
   \<and> flush (flush one_pending_down) = flush one_pending_down
   \<and> exporter_ok (new_tracer sample_config 0 net_down)
   \<and> flush (new_tracer sample_config 0 net_down) = new_tracer sample_config 0 net_down"
proof -
  let ?w = one_pending_down
  let ?e = "ErrorInstance ''TypeError'' ''fetch failed''"
  let ?n = "new_tracer sample_config 0 net_down"
  have ok: "exporter_ok ?w" by code_simp
  have p: "pendingExports ?w = [first_span\<lparr>endTimeUnixNano := ''0''\<rparr>]" by code_simp
  have t: "timers ?w = [(0, 1000)]" by code_simp
  have r: "requests ?w = []" by code_simp
  have c: "console ?w = []" by code_simp
  have cf: "config ?w = sample_config" by code_simp
  have nw: "net ?w (length (requests ?w)) = Rejected ?e" by code_simp
  have ok0: "exporter_ok ?n" by code_simp
  have p0: "pendingExports ?n = []" by code_simp
  note T = flush_sends_once [OF ok, of ?e "[]" 0]
  from T have 1: "pendingExports (flush ?w) = []" and 2: "timers (flush ?w) = []"
    and 5: "flush (flush ?w) = flush ?w"
    by blast+
  from T p r cf have 3: "requests (flush ?w) =
       [export_request sample_config
          (export_payload sample_config [first_span\<lparr>endTimeUnixNano := ''0''\<rparr>])]"
    by simp
  from T p nw c have 4: "console (flush ?w) = [ExportError ?e]" by simp
  from flush_sends_once [OF ok0, of ?e "[]" 0] p0 have 6: "flush ?n = ?n" by blast
  from ok p t 1 2 3 4 5 ok0 6 show ?thesis by blast
qed

subsection \<open>Appending to the exporter\<close>

lemma endSpan_below_threshold:
  assumes "exporter_ok w" and "map_of (activeSpans w) sid = Some sp"
    and "Suc (length (pendingExports w)) < 10"
  shows "endSpan w sid =
     w\<lparr>activeSpans := AList.delete sid (activeSpans w),
       pendingExports := pendingExports w @ [sp\<lparr>endTimeUnixNano := show_int (now w * 1000000)\<rparr>],
       timers := [(next_handle w, now w + 1000)],
       next_handle := Suc (next_handle w),
       exportTimer := Some (next_handle w)\<rparr>"
proof -
  let ?p = "w\<lparr>activeSpans := AList.delete sid (activeSpans w),
       pendingExports := pendingExports w @ [sp\<lparr>endTimeUnixNano := show_int (now w * 1000000)\<rparr>]\<rparr>"
  from assms(1) have "exporter_ok ?p" by (rule exporter_ok_push)
  then have "timers (case exportTimer ?p of Some h \<Rightarrow> clearTimeout ?p h | None \<Rightarrow> ?p) = []"
    by (rule cancel_timers)
  then have "scheduleExport ?p = ?p\<lparr>timers := [(next_handle w, now w + 1000)],
       next_handle := Suc (next_handle w), exportTimer := Some (next_handle w)\<rparr>"
    using assms(3)
    by (simp add: scheduleExport_def Let_def setTimeout_def clearTimeout_def split: option.splits)
  with assms(2) show ?thesis by (simp add: endSpan_def)
qed

lemma endSpan_at_threshold:
  assumes "exporter_ok w" and "map_of (activeSpans w) sid = Some sp"
    and "10 \<le> Suc (length (pendingExports w))"
  shows "timers (endSpan w sid) = [] \<and> pendingExports (endSpan w sid) = []
    \<and> requests (endSpan w sid) = requests w @ [export_request (config w) (export_payload (config w)
          (pendingExports w @ [sp\<lparr>endTimeUnixNano := show_int (now w * 1000000)\<rparr>]))]"
proof -
  let ?p = "w\<lparr>activeSpans := AList.delete sid (activeSpans w),
       pendingExports := pendingExports w @ [sp\<lparr>endTimeUnixNano := show_int (now w * 1000000)\<rparr>]\<rparr>"
  let ?c = "case exportTimer ?p of Some h \<Rightarrow> clearTimeout ?p h | None \<Rightarrow> ?p"
  from assms(1) have "exporter_ok ?p" by (rule exporter_ok_push)
  then have t: "timers ?c = []" by (rule cancel_timers)
  have s: "scheduleExport ?p = exportSpans ?c"
    using assms(3) by (simp add: scheduleExport_def Let_def)
  have "timers (exportSpans ?c) = [] \<and> pendingExports (exportSpans ?c) = []
    \<and> requests (exportSpans ?c) = requests w @ [export_request (config w) (export_payload (config w)
          (pendingExports w @ [sp\<lparr>endTimeUnixNano := show_int (now w * 1000000)\<rparr>]))]"
    using t by (simp add: exportSpans_def Let_def)
  with s assms(2) show ?thesis by (simp add: endSpan_def)
qed

lemma advance_quiet:
  "list_all (\<lambda>(h, d). now w + int dt < d) (timers w) \<Longrightarrow> advance dt w = w\<lparr>now := now w + int dt\<rparr>"
proof -
  assume "list_all (\<lambda>(h, d). now w + int dt < d) (timers w)"
  then have "filter (\<lambda>(h, d). d \<le> now w + int dt) (timers w) = []"
    by (auto simp: list_all_iff filter_empty_conv)
  then show ?thesis by (simp add: advance_def Let_def)
qed

lemma advance_due:
  assumes "timers w = [(h, d)]" and "d \<le> now w + int dt" and "pendingExports w \<noteq> []"
  shows "timers (advance dt w) = [] \<and> pendingExports (advance dt w) = []
    \<and> requests (advance dt w) =
        requests w @ [export_request (config w) (export_payload (config w) (pendingExports w))]"
  using assms by (simp add: advance_def Let_def fire_def exportSpans_def)

lemma trickle_debounce:
  assumes "exporter_ok w" and "just_armed w"
    and "list_all (\<lambda>(dt, s). dt < 1000 \<and> map_of (activeSpans w) s \<noteq> None) evs"
    and "distinct (map snd evs)"
    and "length (pendingExports w) + length evs < 10"
  shows "requests (trickle w evs) = requests w
    \<and> config (trickle w evs) = config w
    \<and> length (pendingExports (trickle w evs)) = length (pendingExports w) + length evs
    \<and> exporter_ok (trickle w evs) \<and> just_armed (trickle w evs)
    \<and> (evs \<noteq> [] \<longrightarrow> length (timers (trickle w evs)) = 1)"
  using assms
proof (induction evs arbitrary: w)
  case Nil
  then show ?case by simp
next
  case (Cons ev evs)
  obtain dt sid where ev: "ev = (dt, sid)" by (cases ev)
  from Cons.prems(3) ev obtain sp where dt: "dt < 1000" and sp: "map_of (activeSpans w) sid = Some sp"
    by auto
  let ?a = "advance dt w"
  from Cons.prems(2) dt have "list_all (\<lambda>(h, d). now w + int dt < d) (timers w)"
    by (auto simp: just_armed_def list_all_iff)
  then have a: "?a = w\<lparr>now := now w + int dt\<rparr>" by (rule advance_quiet)
  from Cons.prems(1) have oka: "exporter_ok ?a" by (rule advance_ok)
  from a sp have spa: "map_of (activeSpans ?a) sid = Some sp" by simp
  from a Cons.prems(5) have below: "Suc (length (pendingExports ?a)) < 10" by simp
  let ?e = "endSpan ?a sid"
  note e = endSpan_below_threshold [OF oka spa below]
  from oka have oke: "exporter_ok ?e" by (rule endSpan_ok)
  have arm: "just_armed ?e" by (subst e) (simp add: just_armed_def)
  have t1: "length (timers ?e) = 1" by (subst e) simp
  have req: "requests ?e = requests w" by (subst e) (simp add: a)
  have cfg: "config ?e = config w" by (subst e) (simp add: a)
  have len: "length (pendingExports ?e) = Suc (length (pendingExports w))"
    by (subst e) (simp add: a)
  have act: "list_all (\<lambda>(dt, s). dt < 1000 \<and> map_of (activeSpans ?e) s \<noteq> None) evs"
  proof -
    have "dt' < 1000 \<and> map_of (activeSpans ?e) s \<noteq> None" if m: "(dt', s) \<in> set evs" for dt' s
    proof -
      from m have "s \<in> snd ` set evs" by force
      with Cons.prems(4) ev have "s \<noteq> sid" by auto
      moreover from m Cons.prems(3) have "dt' < 1000 \<and> map_of (activeSpans w) s \<noteq> None"
        by (auto simp: list_all_iff)
      ultimately show ?thesis by (simp add: endSpan_lookup)
    qed
    then show ?thesis by (auto simp: list_all_iff)
  qed
  from Cons.prems(4) have d: "distinct (map snd evs)" by simp
  from Cons.prems(5) len have l: "length (pendingExports ?e) + length evs < 10" by simp
  note IH = Cons.IH [OF oke arm act d l]
  show ?case
  proof (cases "evs = []")
    case True
    with oke arm t1 req cfg len show ?thesis by (simp add: ev)
  next
    case False
    with IH req cfg len show ?thesis by (simp add: ev)
  qed
qed

lemma trickle_lookup:
  "map_of (activeSpans (trickle w evs)) s =
     (if s \<in> snd ` set evs then None else map_of (activeSpans w) s)"
  by (induction evs arbitrary: w) (force simp: endSpan_lookup)+

lemma debounce_then_timeout:
  assumes "exporter_ok w" and "just_armed w" and "timers w \<noteq> []" 
  shows "timers (advance 1000 w) = [] \<and> pendingExports (advance 1000 w) = []
    \<and> requests (advance 1000 w) =
        requests w @ [export_request (config w) (export_payload (config w) (pendingExports w))]"
proof -
  from assms(1,3) obtain h d where t: "timers w = [(h, d)]"
    by (cases "timers w") (auto simp: exporter_ok_def)
  with assms(2) have d: "d \<le> now w + int 1000" by (simp add: just_armed_def)
  from assms(1,3) have p: "pendingExports w \<noteq> []" by (auto simp: exporter_ok_def)
  from t d p show ?thesis by (rule advance_due)
qed

text \<open>
  C3: closing an active span appends it to the pending sequence. If the sequence then
  holds ten spans, no timer is left armed and one request is issued at once with all of
  them, the pending sequence being empty afterwards. Otherwise no request is issued and
  exactly one timer is armed, due 1000 ms after this append, whatever was armed before.
  Hence the debounce: a trickle of appends, each less than 1000 ms after the one before
  it and fewer than ten spans in all, issues no request at all; once the appends stop,
  the timer of the last one fires 1000 ms later and issues one request with everything
  pending.
\<close>

theorem append_flushes_at_ten_else_rearms:
  assumes "exporter_ok w" and "map_of (activeSpans w) sid = Some sp"
  shows "(10 \<le> Suc (length (pendingExports w)) \<longrightarrow>
        timers (endSpan w sid) = [] \<and> pendingExports (endSpan w sid) = []
        \<and> requests (endSpan w sid) =
            requests w @ [export_request (config w) (export_payload (config w)
              (pendingExports w @ [sp\<lparr>endTimeUnixNano := show_int (now w * 1000000)\<rparr>]))])
   \<and> (Suc (length (pendingExports w)) < 10 \<longrightarrow>
        timers (endSpan w sid) = [(next_handle w, now w + 1000)]
        \<and> exportTimer (endSpan w sid) = Some (next_handle w)
        \<and> pendingExports (endSpan w sid) =
            pendingExports w @ [sp\<lparr>endTimeUnixNano := show_int (now w * 1000000)\<rparr>]
        \<and> requests (endSpan w sid) = requests w)
   \<and> (just_armed w
        \<and> list_all (\<lambda>(dt, s). dt < 1000 \<and> map_of (activeSpans w) s \<noteq> None) evs
        \<and> distinct (map snd evs) \<and> evs \<noteq> []
        \<and> length (pendingExports w) + length evs < 10 \<longrightarrow>
        requests (trickle w evs) = requests w
        \<and> length (pendingExports (trickle w evs)) = length (pendingExports w) + length evs
        \<and> length (timers (trickle w evs)) = 1
        \<and> timers (advance 1000 (trickle w evs)) = []
        \<and> pendingExports (advance 1000 (trickle w evs)) = []
        \<and> requests (advance 1000 (trickle w evs)) =
            requests w @ [export_request (config w)
              (export_payload (config w) (pendingExports (trickle w evs)))])"
proof -
  have 1: "timers (endSpan w sid) = [] \<and> pendingExports (endSpan w sid) = []
        \<and> requests (endSpan w sid) =
            requests w @ [export_request (config w) (export_payload (config w)
              (pendingExports w @ [sp\<lparr>endTimeUnixNano := show_int (now w * 1000000)\<rparr>]))]"
    if "10 \<le> Suc (length (pendingExports w))"
    using assms that by (rule endSpan_at_threshold)
  have 2: "timers (endSpan w sid) = [(next_handle w, now w + 1000)]
        \<and> exportTimer (endSpan w sid) = Some (next_handle w)
        \<and> pendingExports (endSpan w sid) =
            pendingExports w @ [sp\<lparr>endTimeUnixNano := show_int (now w * 1000000)\<rparr>]
        \<and> requests (endSpan w sid) = requests w"
    if "Suc (length (pendingExports w)) < 10"
    by (subst endSpan_below_threshold [OF assms that], simp)+
  have 3: "requests (trickle w evs) = requests w
        \<and> length (pendingExports (trickle w evs)) = length (pendingExports w) + length evs
        \<and> length (timers (trickle w evs)) = 1
        \<and> timers (advance 1000 (trickle w evs)) = []
        \<and> pendingExports (advance 1000 (trickle w evs)) = []
        \<and> requests (advance 1000 (trickle w evs)) =
            requests w @ [export_request (config w)
              (export_payload (config w) (pendingExports (trickle w evs)))]"
    if h: "just_armed w"
        "list_all (\<lambda>(dt, s). dt < 1000 \<and> map_of (activeSpans w) s \<noteq> None) evs"
        "distinct (map snd evs)" "evs \<noteq> []"
        "length (pendingExports w) + length evs < 10"
  proof -
    note D = trickle_debounce [OF assms(1) h(1) h(2) h(3) h(5)]
    from D h(4) have t: "timers (trickle w evs) \<noteq> []" by auto
    from D have ok: "exporter_ok (trickle w evs)" and ja: "just_armed (trickle w evs)" by blast+
    note T = debounce_then_timeout [OF ok ja t]
    from D T h(4) show ?thesis by simp
  qed
  from 1 2 3 show ?thesis by blast
qed


theorem append_flushes_at_ten_else_rearms_witness:
  "exporter_ok ten_open \<and> just_armed ten_open \<and> nine_appends \<noteq> []
   \<and> list_all (\<lambda>(dt, s). dt < 1000 \<and> map_of (activeSpans ten_open) s \<noteq> None) nine_appends
   \<and> distinct (map snd nine_appends)
   \<and> timers (endSpan ten_open ''0102030405060708'') = [(0, 1000)]
   \<and> exportTimer (endSpan ten_open ''0102030405060708'') = Some 0
   \<and> length (pendingExports (endSpan ten_open ''0102030405060708'')) = 1
   \<and> requests (endSpan ten_open ''0102030405060708'') = []
   \<and> requests nine_closed = []
   \<and> length (pendingExports nine_closed) = 9
   \<and> length (timers nine_closed) = 1
   \<and> timers (advance 1000 nine_closed) = []
   \<and> pendingExports (advance 1000 nine_closed) = []
   \<and> requests (advance 1000 nine_closed) =
       [export_request sample_config (export_payload sample_config (pendingExports nine_closed))]
   \<and> exporter_ok nine_closed
   \<and> timers (endSpan nine_closed tenth_id) = []
   \<and> pendingExports (endSpan nine_closed tenth_id) = []
   \<and> map (\<lambda>r. length (spans (body r))) (requests (endSpan nine_closed tenth_id)) = [10]"
proof -
  let ?sid = "''0102030405060708''"
  have ok: "exporter_ok ten_open" by code_simp
  have ja: "just_armed ten_open" by code_simp
  have ne: "nine_appends \<noteq> []" by code_simp
  have la: "list_all (\<lambda>(dt, s). dt < 1000 \<and> map_of (activeSpans ten_open) s \<noteq> None) nine_appends"
    by code_simp
  have di: "distinct (map snd nine_appends)" by code_simp
  obtain sp where sp: "map_of (activeSpans ten_open) ?sid = Some sp"
  proof -
    have "map_of (activeSpans ten_open) ?sid \<noteq> None" by code_simp
    then show ?thesis using that by blast
  qed
  have p0: "pendingExports ten_open = []" by code_simp
  have r0: "requests ten_open = []" by code_simp
  have h0: "next_handle ten_open = 0" by code_simp
  have n0: "now ten_open = 0" by code_simp
  have c0: "config ten_open = sample_config" by code_simp
  have l9: "length nine_appends = 9" by code_simp
  note T = append_flushes_at_ten_else_rearms [OF ok sp, of nine_appends]
  from T p0 r0 h0 n0 have 1: "timers (endSpan ten_open ?sid) = [(0, 1000)]"
    and 2: "exportTimer (endSpan ten_open ?sid) = Some 0"
    and 3: "length (pendingExports (endSpan ten_open ?sid)) = 1"
    and 4: "requests (endSpan ten_open ?sid) = []"
    by simp_all
  from T ja la di ne p0 l9 r0 c0 have 5: "requests nine_closed = []"
    and 6: "length (pendingExports nine_closed) = 9"
    and 7: "length (timers nine_closed) = 1"
    and 8: "timers (advance 1000 nine_closed) = []"
    and 9: "pendingExports (advance 1000 nine_closed) = []"
    and 10: "requests (advance 1000 nine_closed) =
       [export_request sample_config (export_payload sample_config (pendingExports nine_closed))]"
    by (simp_all add: nine_closed_def)
  from trickle_debounce [OF ok ja la di] p0 l9 have ok9: "exporter_ok nine_closed"
    by (simp add: nine_closed_def)
  obtain sp' where sp': "map_of (activeSpans nine_closed) tenth_id = Some sp'"
  proof -
    have "tenth_id \<notin> snd ` set nine_appends" by code_simp
    moreover have "map_of (activeSpans ten_open) tenth_id \<noteq> None" by code_simp
    ultimately have "map_of (activeSpans nine_closed) tenth_id \<noteq> None"
      by (simp add: nine_closed_def trickle_lookup)
    then show ?thesis using that by blast
  qed
  note T' = append_flushes_at_ten_else_rearms [OF ok9 sp', of "[]"]
  from T' 6 5 have 11: "timers (endSpan nine_closed tenth_id) = []"
    and 12: "pendingExports (endSpan nine_closed tenth_id) = []"
    and 13: "map (\<lambda>r. length (spans (body r))) (requests (endSpan nine_closed tenth_id)) = [10]"
    by (simp_all add: export_request_def export_payload_def)
  from ok ja ne la di 1 2 3 4 5 6 7 8 9 10 ok9 11 12 13 show ?thesis by blast
qed

section \<open>Properties of the wrapper\<close>

lemma startSpan_own [simp]:
  "tc_spanId (fst (startSpan w rnd nm ctx)) = generateSpanId (snd rnd)"
  by (simp add: startSpan_def Let_def)

lemma startSpan_in_flight:
  "\<exists>sp. in_flight w (generateSpanId (snd rnd)) sp (snd (startSpan w rnd nm ctx))
        \<and> name sp = nm \<and> attributes sp = [] \<and> status sp = None"
  by (simp add: in_flight_def)
     (simp add: startSpan_def Let_def update_conv' delete_update_same)

lemma startSpan_open: "span_open w (generateSpanId (snd rnd)) nm (snd (startSpan w rnd nm ctx))"
  using startSpan_in_flight [of w rnd nm ctx] by (auto simp: span_open_def)

lemma setSpanAttribute_in_flight:
  "in_flight w0 sid sp w \<Longrightarrow>
   in_flight w0 sid (sp\<lparr>attributes := attributes sp @ [(key, encodeValue v)]\<rparr>)
     (setSpanAttribute w sid key v)"
  by (simp add: in_flight_def setSpanAttribute_lookup)
     (simp add: setSpanAttribute_def delete_update_same)

lemma setSpanStatus_in_flight:
  "in_flight w0 sid sp w \<Longrightarrow>
   in_flight w0 sid (sp\<lparr>status := Some (code, msg)\<rparr>) (setSpanStatus w sid code msg)"
  by (simp add: in_flight_def setSpanStatus_lookup)
     (simp add: setSpanStatus_def delete_update_same)

lemma advance_in_flight: "in_flight w0 sid sp w \<Longrightarrow> in_flight w0 sid sp (advance dt w)"
  by (simp add: in_flight_def)

lemma endSpan_in_flight:
  "in_flight w0 sid sp w \<Longrightarrow>
   closed_spans (endSpan w sid)
     = closed_spans w0 @ [sp\<lparr>endTimeUnixNano := show_int (now w * 1000000)\<rparr>]
   \<and> activeSpans (endSpan w sid) = AList.delete sid (activeSpans w0)"
  by (simp add: in_flight_def endSpan_closed endSpan_active)

lemma span_open_steps [simp]:
  "span_open w0 sid nm w \<Longrightarrow> span_open w0 sid nm (setSpanAttribute w sid key v)"
  "span_open w0 sid nm w \<Longrightarrow> span_open w0 sid nm (setSpanStatus w sid code msg)"
  "span_open w0 sid nm w \<Longrightarrow> span_open w0 sid nm (advance dt w)"
  unfolding span_open_def
    apply (force dest: setSpanAttribute_in_flight [of _ _ _ _ key v])
   apply (force dest: setSpanStatus_in_flight [of _ _ _ _ code msg])
  apply (force dest: advance_in_flight [of _ _ _ _ dt])
  done

lemma span_open_endSpan [simp]:
  "span_open w0 sid nm w \<Longrightarrow> span_closed w0 sid nm (endSpan w sid)"
  unfolding span_open_def span_closed_def
  by (force dest: endSpan_in_flight)

lemma span_open_usage [simp]:
  "span_open w0 sid nm w \<Longrightarrow> span_open w0 sid nm (chat_usage w sid usage)"
  "span_open w0 sid nm w \<Longrightarrow> span_open w0 sid nm (embeddings_usage w sid usage)"
  "span_open w0 sid nm w \<Longrightarrow> span_open w0 sid nm (sum_usage w sid usage)"
  by (simp_all add: chat_usage_def embeddings_usage_def sum_usage_def Let_def)

lemma span_open_catch [simp]:
  "span_open w0 sid nm w \<Longrightarrow> span_closed w0 sid nm (catch_block w sid e)"
  by (simp add: catch_block_def Let_def)

lemma try_catch_closed:
  "try_result_ok w0 sid nm r \<Longrightarrow>
   span_closed w0 sid nm (snd (try_catch r sid)) \<and> fst (try_catch r sid) = fst r"
  by (auto simp: try_result_ok_def try_catch_def split: prod.splits sum.splits)

lemma try_bodies_ok:
  assumes "span_open w0 sid nm w"
  shows "try_result_ok w0 sid nm (try_OpenAICall w sid t f params)"
    and "try_result_ok w0 sid nm (try_OpenAIEmbeddings w sid t f params)"
    and "try_result_ok w0 sid nm (try_OpenAIImages w sid t f params)"
    and "try_result_ok w0 sid nm (try_OpenAIAudioTranscription w sid t f params)"
    and "try_result_ok w0 sid nm (try_OpenAIAudioSpeech w sid t f params)"
    and "try_result_ok w0 sid nm (try_OpenAIModerations w sid t f params)"
    and "try_result_ok w0 sid nm (try_AnthropicCall w sid t f params)"
    and "try_result_ok w0 sid nm (try_BedrockCall w sid t f params)"
    and "try_result_ok w0 sid nm (try_AzureOpenAICall w sid t f params)"
    and "try_result_ok w0 sid nm (try_MistralCall w sid t f params)"
  using assms
  by (simp_all add: try_result_ok_def try_OpenAICall_def try_OpenAIEmbeddings_def
        try_OpenAIImages_def try_OpenAIAudioTranscription_def try_OpenAIAudioSpeech_def
        try_OpenAIModerations_def try_AnthropicCall_def try_BedrockCall_def
        try_AzureOpenAICall_def try_MistralCall_def Let_def
        split: sum.splits prod.splits)

lemma try_bodies_provider_failure:
  assumes "span_open w0 sid nm w" and "\<not> nullish params" and "f params = (Inl e, dt)"
  shows "\<exists>w'. try_OpenAICall w sid t f params = (Inl e, w') \<and> span_open w0 sid nm w'"
    and "\<exists>w'. try_OpenAIEmbeddings w sid t f params = (Inl e, w') \<and> span_open w0 sid nm w'"
    and "\<exists>w'. try_OpenAIImages w sid t f params = (Inl e, w') \<and> span_open w0 sid nm w'"
    and "\<exists>w'. try_OpenAIAudioTranscription w sid t f params = (Inl e, w') \<and> span_open w0 sid nm w'"
    and "\<exists>w'. try_OpenAIAudioSpeech w sid t f params = (Inl e, w') \<and> span_open w0 sid nm w'"
    and "\<exists>w'. try_OpenAIModerations w sid t f params = (Inl e, w') \<and> span_open w0 sid nm w'"
    and "\<exists>w'. try_AnthropicCall w sid t f params = (Inl e, w') \<and> span_open w0 sid nm w'"
    and "\<exists>w'. try_BedrockCall w sid t f params = (Inl e, w') \<and> span_open w0 sid nm w'"
    and "\<exists>w'. try_AzureOpenAICall w sid t f params = (Inl e, w') \<and> span_open w0 sid nm w'"
    and "\<exists>w'. try_MistralCall w sid t f params = (Inl e, w') \<and> span_open w0 sid nm w'"
  using assms
  by (simp_all add: get_prop_def try_OpenAICall_def try_OpenAIEmbeddings_def
        try_OpenAIImages_def try_OpenAIAudioTranscription_def try_OpenAIAudioSpeech_def
        try_OpenAIModerations_def try_AnthropicCall_def try_BedrockCall_def
        try_AzureOpenAICall_def try_MistralCall_def Let_def)

lemma catch_block_in_flight:
  assumes "in_flight w0 sid sp w"
  shows "closed_spans (catch_block w sid e) =
      closed_spans w0 @
        [sp\<lparr>status := Some (2, Some (if instanceof_Error e then error_message e
                                       else ''Unknown error'')),
            attributes := attributes sp @
              [(''error'', BoolValue True),
               (''error.message'',
                StringValue (if instanceof_Error e then error_message e else String_of_error e))],
            endTimeUnixNano := show_int (now w * 1000000)\<rparr>]
    \<and> activeSpans (catch_block w sid e) = AList.delete sid (activeSpans w0)"
proof -
  let ?m = "if instanceof_Error e then error_message e else ''Unknown error''"
  let ?m' = "if instanceof_Error e then error_message e else String_of_error e"
  let ?w1 = "setSpanStatus w sid 2 (Some ?m)"
  let ?w2 = "setSpanAttribute ?w1 sid ''error'' (JBool True)"
  let ?w3 = "setSpanAttribute ?w2 sid ''error.message'' (JStr ?m')"
  note 1 = setSpanStatus_in_flight [OF assms, of 2 "Some ?m"]
  note 2 = setSpanAttribute_in_flight [OF 1, of "''error''" "JBool True"]
  note 3 = setSpanAttribute_in_flight [OF 2, of "''error.message''" "JStr ?m'"]
  note 4 = endSpan_in_flight [OF 3]
  have c: "catch_block w sid e = endSpan ?w3 sid" by (simp add: catch_block_def Let_def)
  from 4 show ?thesis unfolding c by (simp add: encodeValue_def)
qed

lemma provider_failure_recorded:
  assumes "\<not> nullish params" and "f params = (Inl e, dt)"
  shows "fst (instrument a w rnd f params) = Inl e
    \<and> (\<exists>sp. closed_spans (snd (instrument a w rnd f params)) = closed_spans w @ [sp]
          \<and> status sp = Some (2, Some (if instanceof_Error e then error_message e
                                         else ''Unknown error''))
          \<and> suffix [(''error'', BoolValue True),
                     (''error.message'',
                      StringValue (if instanceof_Error e then error_message e
                                   else String_of_error e))]
               (attributes sp))
    \<and> activeSpans (snd (instrument a w rnd f params))
        = AList.delete (generateSpanId (snd rnd)) (activeSpans w)"
proof -
  let ?sid = "generateSpanId (snd rnd)"
  have step: "fst (try_catch r ?sid) = Inl e
    \<and> (\<exists>sp. closed_spans (snd (try_catch r ?sid)) = closed_spans w @ [sp]
          \<and> status sp = Some (2, Some (if instanceof_Error e then error_message e
                                         else ''Unknown error''))
          \<and> suffix [(''error'', BoolValue True),
                     (''error.message'',
                      StringValue (if instanceof_Error e then error_message e
                                   else String_of_error e))]
               (attributes sp))
    \<and> activeSpans (snd (try_catch r ?sid)) = AList.delete ?sid (activeSpans w)"
    if "\<exists>w'. r = (Inl e, w') \<and> span_open w ?sid nm w'" for r nm
  proof -
    from that obtain w' sp where r: "r = (Inl e, w')" and f: "in_flight w ?sid sp w'"
      by (auto simp: span_open_def)
    from catch_block_in_flight [OF f, of e] show ?thesis
      by (auto simp: r try_catch_def suffix_def)
  qed
  note tf = try_bodies_provider_failure
    [where f = f and params = params and e = e and dt = dt, OF startSpan_open assms]
  show ?thesis
  proof (cases a)
    case OpenAICall
    show ?thesis
      unfolding OpenAICall instrument.simps instrumentOpenAICall_def Let_def case_prod_beta startSpan_own
      by (rule step [OF tf(1)])
  next
    case OpenAIEmbeddings
    show ?thesis
      unfolding OpenAIEmbeddings instrument.simps instrumentOpenAIEmbeddings_def Let_def case_prod_beta startSpan_own
      by (rule step [OF tf(2)])
  next
    case OpenAIImages
    show ?thesis
      unfolding OpenAIImages instrument.simps instrumentOpenAIImages_def Let_def case_prod_beta startSpan_own
      by (rule step [OF tf(3)])
  next
    case OpenAIAudioTranscription
    show ?thesis
      unfolding OpenAIAudioTranscription instrument.simps instrumentOpenAIAudioTranscription_def Let_def case_prod_beta startSpan_own
      by (rule step [OF tf(4)])
  next
    case OpenAIAudioSpeech
    show ?thesis
      unfolding OpenAIAudioSpeech instrument.simps instrumentOpenAIAudioSpeech_def Let_def case_prod_beta startSpan_own
      by (rule step [OF tf(5)])
  next
    case OpenAIModerations
    show ?thesis
      unfolding OpenAIModerations instrument.simps instrumentOpenAIModerations_def Let_def case_prod_beta startSpan_own
      by (rule step [OF tf(6)])
  next
    case AnthropicCall
    show ?thesis
      unfolding AnthropicCall instrument.simps instrumentAnthropicCall_def Let_def case_prod_beta startSpan_own
      by (rule step [OF tf(7)])
  next
    case BedrockCall
    show ?thesis
      unfolding BedrockCall instrument.simps instrumentBedrockCall_def Let_def case_prod_beta startSpan_own
      by (rule step [OF tf(8)])
  next
    case AzureOpenAICall
    show ?thesis
      unfolding AzureOpenAICall instrument.simps instrumentAzureOpenAICall_def Let_def case_prod_beta startSpan_own
      by (rule step [OF tf(9)])
  next
    case MistralCall
    show ?thesis
      unfolding MistralCall instrument.simps instrumentMistralCall_def Let_def case_prod_beta startSpan_own
      by (rule step [OF tf(10)])
  qed
qed

lemma instrument_closes_one_span:
  "span_closed w (generateSpanId (snd rnd))
     (case a of
        OpenAICall \<Rightarrow> ''openai.chat.completions.create''
      | OpenAIEmbeddings \<Rightarrow> ''openai.embeddings.create''
      | OpenAIImages \<Rightarrow> ''openai.images.generate''
      | OpenAIAudioTranscription \<Rightarrow> ''openai.audio.transcriptions.create''
      | OpenAIAudioSpeech \<Rightarrow> ''openai.audio.speech.create''
      | OpenAIModerations \<Rightarrow> ''openai.moderations.create''
      | AnthropicCall \<Rightarrow> ''anthropic.messages.create''
      | BedrockCall \<Rightarrow> ''bedrock.invokeModel''
      | AzureOpenAICall \<Rightarrow> ''azure_openai.chat.completions.create''
      | MistralCall \<Rightarrow> ''mistral.chat.complete'')
     (snd (instrument a w rnd f params))"
  by (cases a)
     (simp_all add: instrumentOpenAICall_def instrumentOpenAIEmbeddings_def
        instrumentOpenAIImages_def instrumentOpenAIAudioTranscription_def
        instrumentOpenAIAudioSpeech_def instrumentOpenAIModerations_def
        instrumentAnthropicCall_def instrumentBedrockCall_def instrumentAzureOpenAICall_def
        instrumentMistralCall_def Let_def case_prod_beta try_catch_closed try_bodies_ok
        startSpan_open)

lemma client_at_fn_object: "client_at c (p # ps) = CFn f \<Longrightarrow> \<exists>qs. c = CObj qs"
proof (cases c)
  case (CObj qs)
  then show ?thesis by simp
next
  case (CFn g)
  assume "client_at c (p # ps) = CFn f"
  moreover have "client_at (CVal v) ps = CVal (foldl own_prop v ps)" for v
    by (induction ps arbitrary: v) simp_all
  ultimately show ?thesis using CFn by simp
next
  case (CVal v)
  assume "client_at c (p # ps) = CFn f"
  moreover have "client_at (CVal v) ps = CVal (foldl own_prop v ps)" for v
    by (induction ps arbitrary: v) simp_all
  ultimately show ?thesis using CVal by simp
qed

lemma client_at_one:
  assumes "client_at c [p1] = CFn f"
  shows "\<exists>q1. c = CObj q1 \<and> client_get c p1 = CFn f"
proof -
  from assms obtain q1 where "c = CObj q1" by (blast dest: client_at_fn_object)
  with assms show ?thesis by auto
qed

lemma client_at_two:
  assumes "client_at c [p1, p2] = CFn f"
  shows "\<exists>q1 q2. c = CObj q1 \<and> client_get c p1 = CObj q2 \<and> client_get (CObj q2) p2 = CFn f"
proof -
  from assms obtain q1 where "c = CObj q1" by (blast dest: client_at_fn_object)
  moreover from assms have "client_at (client_get c p1) [p2] = CFn f" by simp
  then obtain q2 where "client_get c p1 = CObj q2" by (blast dest: client_at_fn_object)
  ultimately show ?thesis using assms by auto
qed

lemma client_at_three:
  assumes "client_at c [p1, p2, p3] = CFn f"
  shows "\<exists>q1 q2 q3. c = CObj q1 \<and> client_get c p1 = CObj q2
      \<and> client_get (CObj q2) p2 = CObj q3 \<and> client_get (CObj q3) p3 = CFn f"
proof -
  from assms obtain q1 where "c = CObj q1" by (blast dest: client_at_fn_object)
  moreover from assms have 2: "client_at (client_get c p1) [p2, p3] = CFn f" by simp
  then obtain q2 where "client_get c p1 = CObj q2" by (blast dest: client_at_fn_object)
  moreover from 2 this have 3: "client_at (client_get (CObj q2) p2) [p3] = CFn f" by simp
  then obtain q3 where "client_get (CObj q2) p2 = CObj q3" by (blast dest: client_at_fn_object)
  ultimately show ?thesis using assms by auto
qed

lemma dispatch_one:
  assumes "client_at c [p1] = CFn f" and "proxy_get h c p1 = Inr (AsyncFn a c p1)"
  shows "\<exists>v. new_Proxy c h = Inr v
    \<and> call_path impl w rnd v [p1] arg = instrument a w rnd (impl f) arg"
  using client_at_one [OF assms(1)] assms(2)
  by (auto simp: new_Proxy_def call_path_def)

lemma dispatch_two:
  assumes "client_at c [p1, p2] = CFn f"
    and "\<And>t. is_object t \<Longrightarrow> proxy_get h c p1 = Inr (Proxy ha t) \<Longrightarrow>
          proxy_get ha t p2 = Inr (AsyncFn a t p2)"
    and "proxy_get h c p1 = new_Proxy (client_get c p1) ha"
  shows "\<exists>v. new_Proxy c h = Inr v
    \<and> call_path impl w rnd v [p1, p2] arg = instrument a w rnd (impl f) arg"
  using client_at_two [OF assms(1)] assms(2) [of "client_get c p1"] assms(3)
  by (auto simp: new_Proxy_def call_path_def)

lemma dispatch_three:
  assumes "client_at c [p1, p2, p3] = CFn f"
    and "proxy_get h c p1 = new_Proxy (client_get c p1) ha"
    and "\<And>t. proxy_get ha t p2 = new_Proxy (client_get t p2) hb"
    and "\<And>t. proxy_get hb t p3 = Inr (AsyncFn a t p3)"
  shows "\<exists>v. new_Proxy c h = Inr v
    \<and> call_path impl w rnd v [p1, p2, p3] arg = instrument a w rnd (impl f) arg"
  using client_at_three [OF assms(1)] assms(2,3,4)
  by (auto simp: new_Proxy_def call_path_def)

lemma dispatch_rows:
  "client_at c [''chat'', ''completions'', ''create''] = CFn f \<Longrightarrow>
     \<exists>v. new_Proxy c OpenAI_client = Inr v
       \<and> call_path impl w rnd v [''chat'', ''completions'', ''create''] arg = instrument OpenAICall w rnd (impl f) arg"
  "client_at c [''embeddings'', ''create''] = CFn f \<Longrightarrow>
     \<exists>v. new_Proxy c OpenAI_client = Inr v
       \<and> call_path impl w rnd v [''embeddings'', ''create''] arg = instrument OpenAIEmbeddings w rnd (impl f) arg"
  "client_at c [''images'', ''generate''] = CFn f \<Longrightarrow>
     \<exists>v. new_Proxy c OpenAI_client = Inr v
       \<and> call_path impl w rnd v [''images'', ''generate''] arg = instrument OpenAIImages w rnd (impl f) arg"
  "client_at c [''audio'', ''transcriptions'', ''create''] = CFn f \<Longrightarrow>
     \<exists>v. new_Proxy c OpenAI_client = Inr v
       \<and> call_path impl w rnd v [''audio'', ''transcriptions'', ''create''] arg = instrument OpenAIAudioTranscription w rnd (impl f) arg"
  "client_at c [''audio'', ''speech'', ''create''] = CFn f \<Longrightarrow>
     \<exists>v. new_Proxy c OpenAI_client = Inr v
       \<and> call_path impl w rnd v [''audio'', ''speech'', ''create''] arg = instrument OpenAIAudioSpeech w rnd (impl f) arg"
  "client_at c [''moderations'', ''create''] = CFn f \<Longrightarrow>
     \<exists>v. new_Proxy c OpenAI_client = Inr v
       \<and> call_path impl w rnd v [''moderations'', ''create''] arg = instrument OpenAIModerations w rnd (impl f) arg"
  "client_at c [''messages'', ''create''] = CFn f \<Longrightarrow>
     \<exists>v. new_Proxy c Anthropic_client = Inr v
       \<and> call_path impl w rnd v [''messages'', ''create''] arg = instrument AnthropicCall w rnd (impl f) arg"
  "client_at c [''invokeModel''] = CFn f \<Longrightarrow>
     \<exists>v. new_Proxy c Bedrock_client = Inr v
       \<and> call_path impl w rnd v [''invokeModel''] arg = instrument BedrockCall w rnd (impl f) arg"
  "client_at c [''send''] = CFn f \<Longrightarrow>
     \<exists>v. new_Proxy c Bedrock_client = Inr v
       \<and> call_path impl w rnd v [''send''] arg = instrument BedrockCall w rnd (impl f) arg"
  "client_at c [''chat'', ''completions'', ''create''] = CFn f \<Longrightarrow>
     \<exists>v. new_Proxy c Azure_client = Inr v
       \<and> call_path impl w rnd v [''chat'', ''completions'', ''create''] arg = instrument AzureOpenAICall w rnd (impl f) arg"
  "client_at c [''chat'', ''complete''] = CFn f \<Longrightarrow>
     \<exists>v. new_Proxy c Mistral_client = Inr v
       \<and> call_path impl w rnd v [''chat'', ''complete''] arg = instrument MistralCall w rnd (impl f) arg"
  "client_at c [''chat'', ''stream''] = CFn f \<Longrightarrow>
     \<exists>v. new_Proxy c Mistral_client = Inr v
       \<and> call_path impl w rnd v [''chat'', ''stream''] arg = instrument MistralCall w rnd (impl f) arg"
  apply (rule dispatch_three [where ha = OpenAI_chat and hb = OpenAI_completions]; simp)
  apply (rule dispatch_two [where ha = OpenAI_embeddings]; simp)
  apply (rule dispatch_two [where ha = OpenAI_images]; simp)
  apply (rule dispatch_three [where ha = OpenAI_audio and hb = OpenAI_transcriptions]; simp)
  apply (rule dispatch_three [where ha = OpenAI_audio and hb = OpenAI_speech]; simp)
  apply (rule dispatch_two [where ha = OpenAI_moderations]; simp)
  apply (rule dispatch_two [where ha = Anthropic_messages]; simp)
  apply (rule dispatch_one; simp)
  apply (rule dispatch_one; simp)
  apply (rule dispatch_three [where ha = Azure_chat and hb = Azure_completions]; simp)
  apply (rule dispatch_two [where ha = Mistral_chat]; simp)
  apply (rule dispatch_two [where ha = Mistral_chat]; simp)
  done

lemma intercepted_dispatch:
  assumes "(h, path, a, nm) \<in> set intercepted_paths" and "client_at c path = CFn f"
  shows "\<exists>v. new_Proxy c h = Inr v
    \<and> call_path impl w rnd v path arg = instrument a w rnd (impl f) arg"
proof -
  from assms(1) have "(h, path, a, nm) \<in> set intercepted_paths" .
  then show ?thesis
    unfolding intercepted_paths_def set_simps insert_iff empty_iff prod.inject
    using assms(2) by (elim disjE conjE FalseE; simp only: dispatch_rows)
qed

lemma is_integer_of_int [simp]: "is_integer (of_int i)"
  by (simp add: is_integer_def)

lemma encodeValue_int [simp]: "encodeValue (JNum (of_int i)) = IntValue i"
  by (simp add: encodeValue_def)

lemma encodeValue_zero [simp]: "encodeValue (JNum 0) = IntValue 0"
  using encodeValue_int [of 0] by simp

lemma token_count_or_zero:
  "token_count (map_of us k) = Some i \<Longrightarrow>
   js_or (own_prop (JObj us) k) (JNum 0) = JNum (of_int i)"
proof (cases "map_of us k")
  case None
  then show "token_count (map_of us k) = Some i \<Longrightarrow> ?thesis" by (auto simp: js_or_def)
next
  case (Some v)
  then show "token_count (map_of us k) = Some i \<Longrightarrow> ?thesis"
    by (cases v) (auto simp: js_or_def is_integer_def split: if_splits)
qed

lemma js_add_ints [simp]: "js_add (JNum (of_int a)) (JNum (of_int b)) = JNum (of_int (a + b))"
  by (simp add: js_add_def)

lemma no_usage_open_steps:
  "no_usage_open w0 sid w \<Longrightarrow> key \<notin> set usage_keys \<Longrightarrow>
   no_usage_open w0 sid (setSpanAttribute w sid key v)"
  "no_usage_open w0 sid w \<Longrightarrow> no_usage_open w0 sid (advance dt w)"
  unfolding no_usage_open_def
   apply (force dest: setSpanAttribute_in_flight [of _ _ _ _ key v] simp: usage_attrs_def)
  apply (force dest: advance_in_flight [of _ _ _ _ dt])
  done

lemma startSpan_no_usage:
  "no_usage_open w (generateSpanId (snd rnd)) (snd (startSpan w rnd nm ctx))"
  using startSpan_in_flight [of w rnd nm ctx] by (auto simp: no_usage_open_def usage_attrs_def)

lemma sum_usage_in_flight:
  assumes "in_flight w0 sid sp w"
    and "token_count (map_of us ''input_tokens'') = Some n"
    and "token_count (map_of us ''output_tokens'') = Some m"
  shows "in_flight w0 sid
     (sp\<lparr>attributes := attributes sp @
        [(''gen_ai.usage.prompt_tokens'', IntValue n),
         (''gen_ai.usage.completion_tokens'', IntValue m),
         (''gen_ai.usage.total_tokens'', IntValue (n + m)),
         (''ai.prompt_tokens'', IntValue n),
         (''ai.completion_tokens'', IntValue m),
         (''ai.total_tokens'', IntValue (n + m))]\<rparr>)
     (sum_usage w sid (JObj us))"
proof -
  note a = token_count_or_zero [OF assms(2)]
  note b = token_count_or_zero [OF assms(3)]
  let ?i = "JNum (of_int n)" and ?o = "JNum (of_int m)" and ?t = "JNum (of_int (n + m))"
  note 1 = setSpanAttribute_in_flight [OF assms(1), of "''gen_ai.usage.prompt_tokens''" ?i]
  note 2 = setSpanAttribute_in_flight [OF 1, of "''gen_ai.usage.completion_tokens''" ?o]
  note 3 = setSpanAttribute_in_flight [OF 2, of "''gen_ai.usage.total_tokens''" ?t]
  note 4 = setSpanAttribute_in_flight [OF 3, of "''ai.prompt_tokens''" ?i]
  note 5 = setSpanAttribute_in_flight [OF 4, of "''ai.completion_tokens''" ?o]
  note 6 = setSpanAttribute_in_flight [OF 5, of "''ai.total_tokens''" ?t]
  from 6 show ?thesis
    by (simp add: sum_usage_def Let_def a b del: own_prop.simps of_int_add)
qed

lemma usage_attrs_updates [simp]:
  "usage_attrs (sp\<lparr>status := s\<rparr>) = usage_attrs sp"
  "usage_attrs (sp\<lparr>endTimeUnixNano := e\<rparr>) = usage_attrs sp"
  by (simp_all add: usage_attrs_def)

lemma anthropic_usage_recorded:
  assumes "\<not> nullish params" and "f params = (Inr response, dt)" and "\<not> nullish response"
  shows "fst (instrumentAnthropicCall w rnd f params) = Inr response
   \<and> (\<exists>sp. closed_spans (snd (instrumentAnthropicCall w rnd f params)) = closed_spans w @ [sp]
        \<and> status sp = Some (0, None)
        \<and> (own_prop response ''usage'' = JObj us
             \<and> token_count (map_of us ''input_tokens'') = Some n
             \<and> token_count (map_of us ''output_tokens'') = Some m \<longrightarrow>
            usage_attrs sp =
              [(''gen_ai.usage.prompt_tokens'', IntValue n),
               (''gen_ai.usage.completion_tokens'', IntValue m),
               (''gen_ai.usage.total_tokens'', IntValue (n + m)),
               (''ai.prompt_tokens'', IntValue n),
               (''ai.completion_tokens'', IntValue m),
               (''ai.total_tokens'', IntValue (n + m))])
        \<and> (\<not> truthy (own_prop response ''usage'') \<longrightarrow> usage_attrs sp = []))"
proof -
  let ?sid = "generateSpanId (snd rnd)"
  let ?w = "snd (startSpan w rnd ''anthropic.messages.create'' None)"
  let ?u = "own_prop response ''usage''"
  let ?model = "js_or (own_prop params ''model'') (JStr ''unknown'')"
  define wa where "wa =
    setSpanAttribute (setSpanAttribute (setSpanAttribute (setSpanAttribute ?w ?sid
      ''gen_ai.system'' (JStr ''anthropic'')) ?sid ''gen_ai.request.model'' ?model) ?sid
      ''ai.provider'' (JStr ''anthropic'')) ?sid ''ai.model'' ?model"
  define wb where "wb =
    (if own_prop params ''temperature'' \<noteq> JUndefined
     then setSpanAttribute wa ?sid ''gen_ai.request.temperature'' (own_prop params ''temperature'')
     else wa)"
  define wc where "wc =
    (if own_prop params ''max_tokens'' \<noteq> JUndefined
     then setSpanAttribute wb ?sid ''gen_ai.request.max_tokens'' (own_prop params ''max_tokens'')
     else wb)"
  define w1 where "w1 =
    setSpanAttribute (advance dt wc) ?sid ''gen_ai.response.latency_ms''
      (JNum (of_int (now (advance dt wc) - now ?w)))"
  let ?w2 = "if truthy ?u then sum_usage w1 ?sid ?u else w1"
  have t: "try_AnthropicCall ?w ?sid (now ?w) f params =
         (Inr response, endSpan (setSpanStatus ?w2 ?sid 0 None) ?sid)"
    using assms
    by (simp add: try_AnthropicCall_def get_prop_def Let_def wa_def wb_def wc_def w1_def
          del: own_prop.simps of_int_diff of_int_add)
  have r: "instrumentAnthropicCall w rnd f params =
      (Inr response, endSpan (setSpanStatus ?w2 ?sid 0 None) ?sid)"
    unfolding instrumentAnthropicCall_def Let_def case_prod_beta startSpan_own t try_catch_def
    by (simp only: prod.case sum.case fst_conv snd_conv)
  have "no_usage_open w ?sid ?w" by (rule startSpan_no_usage)
  then have "no_usage_open w ?sid wa"
    unfolding wa_def by (simp add: no_usage_open_steps usage_keys_def)
  then have "no_usage_open w ?sid wb"
    unfolding wb_def by (simp add: no_usage_open_steps usage_keys_def)
  then have "no_usage_open w ?sid wc"
    unfolding wc_def by (simp add: no_usage_open_steps usage_keys_def)
  then have open1: "no_usage_open w ?sid w1"
    unfolding w1_def by (simp add: no_usage_open_steps usage_keys_def)
  from open1 obtain sp0 where f0: "in_flight w ?sid sp0 w1" and u0: "usage_attrs sp0 = []"
    by (auto simp: no_usage_open_def)
  have open2: "\<exists>sp. in_flight w ?sid sp ?w2
      \<and> (own_prop response ''usage'' = JObj us
             \<and> token_count (map_of us ''input_tokens'') = Some n
             \<and> token_count (map_of us ''output_tokens'') = Some m \<longrightarrow>
            usage_attrs sp =
              [(''gen_ai.usage.prompt_tokens'', IntValue n),
               (''gen_ai.usage.completion_tokens'', IntValue m),
               (''gen_ai.usage.total_tokens'', IntValue (n + m)),
               (''ai.prompt_tokens'', IntValue n),
               (''ai.completion_tokens'', IntValue m),
               (''ai.total_tokens'', IntValue (n + m))])
      \<and> (\<not> truthy ?u \<longrightarrow> usage_attrs sp = [])"
  proof (cases "truthy ?u")
    case False
    with f0 u0 show ?thesis by auto
  next
    case True
    show ?thesis
    proof (cases "own_prop response ''usage'' = JObj us
             \<and> token_count (map_of us ''input_tokens'') = Some n
             \<and> token_count (map_of us ''output_tokens'') = Some m")
      case h: True
      let ?sp = "sp0\<lparr>attributes := attributes sp0 @
              [(''gen_ai.usage.prompt_tokens'', IntValue n),
               (''gen_ai.usage.completion_tokens'', IntValue m),
               (''gen_ai.usage.total_tokens'', IntValue (n + m)),
               (''ai.prompt_tokens'', IntValue n),
               (''ai.completion_tokens'', IntValue m),
               (''ai.total_tokens'', IntValue (n + m))]\<rparr>"
      from h have u: "?u = JObj us" by simp
      from sum_usage_in_flight [OF f0, of us n m] h
      have "in_flight w ?sid ?sp (sum_usage w1 ?sid (JObj us))" by blast
      with True have 1: "in_flight w ?sid ?sp ?w2" unfolding u by simp
      from u0 have 2: "usage_attrs ?sp =
              [(''gen_ai.usage.prompt_tokens'', IntValue n),
               (''gen_ai.usage.completion_tokens'', IntValue m),
               (''gen_ai.usage.total_tokens'', IntValue (n + m)),
               (''ai.prompt_tokens'', IntValue n),
               (''ai.completion_tokens'', IntValue m),
               (''ai.total_tokens'', IntValue (n + m))]"
        by (simp add: usage_attrs_def usage_keys_def)
      from 1 2 True show ?thesis by blast
    next
      case False
      have "span_open w ?sid (name sp0) w1" using f0 by (auto simp: span_open_def)
      then have "span_open w ?sid (name sp0) (sum_usage w1 ?sid ?u)" by simp
      with False True show ?thesis by (auto simp: span_open_def)
    qed
  qed
  then obtain sp where f2: "in_flight w ?sid sp ?w2"
    and p: "own_prop response ''usage'' = JObj us
             \<and> token_count (map_of us ''input_tokens'') = Some n
             \<and> token_count (map_of us ''output_tokens'') = Some m \<longrightarrow>
            usage_attrs sp =
              [(''gen_ai.usage.prompt_tokens'', IntValue n),
               (''gen_ai.usage.completion_tokens'', IntValue m),
               (''gen_ai.usage.total_tokens'', IntValue (n + m)),
               (''ai.prompt_tokens'', IntValue n),
               (''ai.completion_tokens'', IntValue m),
               (''ai.total_tokens'', IntValue (n + m))]"
    and q: "\<not> truthy ?u \<longrightarrow> usage_attrs sp = []"
    by blast
  note e = endSpan_in_flight [OF setSpanStatus_in_flight [OF f2, of 0 None]]
  let ?sp = "sp\<lparr>status := Some (0, None),
      endTimeUnixNano := show_int (now (setSpanStatus ?w2 ?sid 0 None) * 1000000)\<rparr>"
  have ua: "usage_attrs ?sp = usage_attrs sp" by simp
  from e have c: "closed_spans (snd (instrumentAnthropicCall w rnd f params)) = closed_spans w @ [?sp]"
    unfolding r by simp
  have s: "status ?sp = Some (0, None)" by simp
  have fs: "fst (instrumentAnthropicCall w rnd f params) = Inr response" unfolding r by simp
  from c s p q ua have "closed_spans (snd (instrumentAnthropicCall w rnd f params)) = closed_spans w @ [?sp]
        \<and> status ?sp = Some (0, None)
        \<and> (own_prop response ''usage'' = JObj us
             \<and> token_count (map_of us ''input_tokens'') = Some n
             \<and> token_count (map_of us ''output_tokens'') = Some m \<longrightarrow>
            usage_attrs ?sp =
              [(''gen_ai.usage.prompt_tokens'', IntValue n),
               (''gen_ai.usage.completion_tokens'', IntValue m),
               (''gen_ai.usage.total_tokens'', IntValue (n + m)),
               (''ai.prompt_tokens'', IntValue n),
               (''ai.completion_tokens'', IntValue m),
               (''ai.total_tokens'', IntValue (n + m))])
        \<and> (\<not> truthy ?u \<longrightarrow> usage_attrs ?sp = [])"
    by (simp only:) 
  then show ?thesis using fs by blast
qed

lemma closed_spans_new_tracer [simp]: "closed_spans (new_tracer cfg t0 nw) = []"
  by (simp add: closed_spans_def new_tracer_def)

lemma try_catch_failure:
  assumes "r = (Inl e, w')" and "span_open w sid nm w'"
  shows "fst (try_catch r sid) = Inl e
    \<and> (\<exists>sp. closed_spans (snd (try_catch r sid)) = closed_spans w @ [sp]
          \<and> status sp = Some (2, Some (if instanceof_Error e then error_message e
                                         else ''Unknown error''))
          \<and> suffix [(''error'', BoolValue True),
                     (''error.message'',
                      StringValue (if instanceof_Error e then error_message e
                                   else String_of_error e))]
               (attributes sp))
    \<and> activeSpans (snd (try_catch r sid)) = AList.delete sid (activeSpans w)"
proof -
  from assms(2) obtain sp where f: "in_flight w sid sp w'"
    by (auto simp: span_open_def)
  from catch_block_in_flight [OF f, of e] show ?thesis
    by (auto simp: assms(1) try_catch_def suffix_def)
qed

lemma table_names:
  assumes "(h, path, a, nm) \<in> set intercepted_paths"
  shows "nm = (case a of
        OpenAICall \<Rightarrow> ''openai.chat.completions.create''
      | OpenAIEmbeddings \<Rightarrow> ''openai.embeddings.create''
      | OpenAIImages \<Rightarrow> ''openai.images.generate''
      | OpenAIAudioTranscription \<Rightarrow> ''openai.audio.transcriptions.create''
      | OpenAIAudioSpeech \<Rightarrow> ''openai.audio.speech.create''
      | OpenAIModerations \<Rightarrow> ''openai.moderations.create''
      | AnthropicCall \<Rightarrow> ''anthropic.messages.create''
      | BedrockCall \<Rightarrow> ''bedrock.invokeModel''
      | AzureOpenAICall \<Rightarrow> ''azure_openai.chat.completions.create''
      | MistralCall \<Rightarrow> ''mistral.chat.complete'')"
proof -
  from assms have "(h, path, a, nm) \<in> set intercepted_paths" .
  then show ?thesis
    unfolding intercepted_paths_def set_simps insert_iff empty_iff prod.inject
    by (elim disjE conjE FalseE; simp only: adapter.case)
qed

lemma intercepted_call_closes_one_span:
  assumes "(h, path, a, nm) \<in> set intercepted_paths" and "client_at c path = CFn f"
  shows "\<exists>v sp. new_Proxy c h = Inr v
    \<and> closed_spans (snd (call_path impl w rnd v path arg)) = closed_spans w @ [sp]
    \<and> name sp = nm
    \<and> activeSpans (snd (call_path impl w rnd v path arg))
        = AList.delete (generateSpanId (snd rnd)) (activeSpans w)"
proof -
  from intercepted_dispatch [OF assms, of impl w rnd arg]
  obtain v where v: "new_Proxy c h = Inr v"
    and d: "call_path impl w rnd v path arg = instrument a w rnd (impl f) arg"
    by blast
  from instrument_closes_one_span [of w rnd a "impl f" arg] table_names [OF assms(1)]
  have "span_closed w (generateSpanId (snd rnd)) nm (snd (instrument a w rnd (impl f) arg))"
    by simp
  with v d show ?thesis by (auto simp: span_closed_def)
qed

subsection \<open>Span names\<close>

text \<open>
  C4, as the code has it: for every intercepted path of every wrapper (\<open>wrapOpenAI c\<close> is
  \<open>new_Proxy c OpenAI_client\<close>, and so on for the other four), if the client has a
  function at that path, then calling the path on the wrapped client opens and closes
  exactly one span and leaves no span open under the id it drew. The span's name is the
  one fixed in the instrumenting method the path is routed to: it is given by the
  provider and the method, not by the path that was called. Both \<open>chat.complete\<close> and
  \<open>chat.stream\<close> of a Mistral client give \<open>mistral.chat.complete\<close>, and both
  \<open>invokeModel\<close> and \<open>send\<close> of a Bedrock client give \<open>bedrock.invokeModel\<close>.
\<close>

theorem intercepted_call_span_name:
  assumes "(h, path, a, nm) \<in> set intercepted_paths" and "client_at c path = CFn f"
  shows "\<exists>v sp. new_Proxy c h = Inr v
    \<and> closed_spans (snd (call_path impl w rnd v path arg)) = closed_spans w @ [sp]
    \<and> name sp = nm
    \<and> activeSpans (snd (call_path impl w rnd v path arg))
        = AList.delete (generateSpanId (snd rnd)) (activeSpans w)"
  using assms by (rule intercepted_call_closes_one_span)

text \<open>
  C4 as stated fails on the stream path: a \<open>chat.stream\<close> call through a wrapped Mistral
  client closes one span, and its name is \<open>mistral.chat.complete\<close>.
\<close>

theorem mistral_stream_span_name:
  "wrapMistral mistral_client = Inr (Proxy Mistral_client mistral_client)
   \<and> map name (closed_spans (snd (call_path sample_impl (new_tracer sample_config 0 net_ok)
        sample_fill (Proxy Mistral_client mistral_client) [''chat'', ''stream''] chat_params)))
     = [''mistral.chat.complete'']"
proof -
  have m: "(Mistral_client, [''chat'', ''stream''], MistralCall, ''mistral.chat.complete'')
      \<in> set intercepted_paths"
    by (simp add: intercepted_paths_def)
  have c: "client_at mistral_client [''chat'', ''stream''] = CFn 1"
    by (simp add: mistral_client_def)
  have w: "wrapMistral mistral_client = Inr (Proxy Mistral_client mistral_client)"
    by (simp add: wrapMistral_def new_Proxy_def mistral_client_def)
  from intercepted_call_closes_one_span [OF m c, of sample_impl
      "new_tracer sample_config 0 net_ok" sample_fill chat_params] w
  show ?thesis by (auto simp: wrapMistral_def)
qed

theorem intercepted_call_span_name_witness:
  "(Bedrock_client, [''send''], BedrockCall, ''bedrock.invokeModel'') \<in> set intercepted_paths
   \<and> client_at (CObj [(''send'', CFn 0)]) [''send''] = CFn 0
   \<and> wrapBedrock (CObj [(''send'', CFn 0)]) = Inr (Proxy Bedrock_client (CObj [(''send'', CFn 0)]))
   \<and> map name (closed_spans (snd (call_path sample_impl (new_tracer sample_config 0 net_ok)
        sample_fill (Proxy Bedrock_client (CObj [(''send'', CFn 0)])) [''send'']
        bedrock_command)))
     = [''bedrock.invokeModel'']
   \<and> activeSpans (snd (call_path sample_impl (new_tracer sample_config 0 net_ok)
        sample_fill (Proxy Bedrock_client (CObj [(''send'', CFn 0)])) [''send'']
        bedrock_command)) = []"
proof -
  let ?c = "CObj [(''send'', CFn 0)]"
  have m: "(Bedrock_client, [''send''], BedrockCall, ''bedrock.invokeModel'')
      \<in> set intercepted_paths"
    by (simp add: intercepted_paths_def)
  have c: "client_at ?c [''send''] = CFn 0" by simp
  have w: "wrapBedrock ?c = Inr (Proxy Bedrock_client ?c)"
    by (simp add: wrapBedrock_def new_Proxy_def)
  have a: "activeSpans (new_tracer sample_config 0 net_ok) = []"
    by (simp add: new_tracer_def)
  from intercepted_call_span_name [OF m c, of sample_impl
      "new_tracer sample_config 0 net_ok" sample_fill bedrock_command] w
  have "map name (closed_spans (snd (call_path sample_impl (new_tracer sample_config 0 net_ok)
        sample_fill (Proxy Bedrock_client ?c) [''send''] bedrock_command)))
     = [''bedrock.invokeModel'']
   \<and> activeSpans (snd (call_path sample_impl (new_tracer sample_config 0 net_ok)
        sample_fill (Proxy Bedrock_client ?c) [''send''] bedrock_command)) = []"
    by (auto simp: wrapBedrock_def a)
  with m c w show ?thesis by blast
qed

subsection \<open>Provider failures\<close>

text \<open>
  C2, as the code has it: when the parameters are neither \<open>null\<close> nor \<open>undefined\<close> (so
  that the provider call is reached) and the provider call fails with \<open>e\<close>, every
  instrumenting method returns that same \<open>e\<close> as its failure, and has closed exactly one
  span: its status is 2 (ERROR), its last two attributes are \<open>error = true\<close> and
  \<open>error.message\<close>, and no span stays open under the id drawn. The status message is
  the failure's message when the failure is an \<open>Error\<close> and the fixed text
  \<open>Unknown error\<close> when it is any other thrown value; the \<open>error.message\<close> attribute is
  the message of an \<open>Error\<close> and the string form of any other thrown value.
\<close>

theorem provider_failure_rethrown_and_recorded:
  assumes "\<not> nullish params" and "f params = (Inl e, dt)"
  shows "fst (instrument a w rnd f params) = Inl e
    \<and> (\<exists>sp. closed_spans (snd (instrument a w rnd f params)) = closed_spans w @ [sp]
          \<and> status sp = Some (2, Some (if instanceof_Error e then error_message e
                                         else ''Unknown error''))
          \<and> suffix [(''error'', BoolValue True),
                     (''error.message'',
                      StringValue (if instanceof_Error e then error_message e
                                   else String_of_error e))]
               (attributes sp))
    \<and> activeSpans (snd (instrument a w rnd f params))
        = AList.delete (generateSpanId (snd rnd)) (activeSpans w)"
  using assms by (rule provider_failure_recorded)

text \<open>
  C2 as stated fails for a failure that is not an \<open>Error\<close>: a provider call that rejects
  with the string \<open>rate limited\<close> is rethrown unchanged and recorded with that string as
  \<open>error.message\<close>, but the status message is \<open>Unknown error\<close>.
\<close>

theorem non_error_failure_status_message:
  "fst (instrumentOpenAICall (new_tracer sample_config 0 net_ok) sample_fill rejecting_call
          chat_params) = Inl (NonError ''rate limited'')
   \<and> map status (closed_spans (snd (instrumentOpenAICall (new_tracer sample_config 0 net_ok)
          sample_fill rejecting_call chat_params)))
       = [Some (2, Some ''Unknown error'')]
   \<and> map (\<lambda>sp. last (attributes sp)) (closed_spans (snd (instrumentOpenAICall
          (new_tracer sample_config 0 net_ok) sample_fill rejecting_call chat_params)))
       = [(''error.message'', StringValue ''rate limited'')]"
proof -
  have p: "\<not> nullish chat_params" by (simp add: chat_params_def)
  have f: "rejecting_call chat_params = (Inl (NonError ''rate limited''), 5)"
    by (simp add: rejecting_call_def)
  from provider_failure_recorded [where f = rejecting_call and params = chat_params
      and a = OpenAICall and w = "new_tracer sample_config 0 net_ok" and rnd = sample_fill,
      OF p f]
  show ?thesis by (auto simp: suffix_def)
qed

theorem provider_failure_rethrown_and_recorded_witness:
  "\<not> nullish chat_params
   \<and> throwing_call chat_params = (Inl (ErrorInstance ''Error'' ''connection reset''), 5)
   \<and> fst (instrument MistralCall (new_tracer sample_config 0 net_ok) sample_fill throwing_call
          chat_params) = Inl (ErrorInstance ''Error'' ''connection reset'')
   \<and> map status (closed_spans (snd (instrument MistralCall (new_tracer sample_config 0 net_ok)
          sample_fill throwing_call chat_params)))
       = [Some (2, Some ''connection reset'')]
   \<and> map (\<lambda>sp. last (attributes sp)) (closed_spans (snd (instrument MistralCall
          (new_tracer sample_config 0 net_ok) sample_fill throwing_call chat_params)))
       = [(''error.message'', StringValue ''connection reset'')]
   \<and> activeSpans (snd (instrument MistralCall (new_tracer sample_config 0 net_ok) sample_fill
          throwing_call chat_params)) = []"
proof -
  have p: "\<not> nullish chat_params" by (simp add: chat_params_def)
  have f: "throwing_call chat_params = (Inl (ErrorInstance ''Error'' ''connection reset''), 5)"
    by (simp add: throwing_call_def)
  have a: "activeSpans (new_tracer sample_config 0 net_ok) = []"
    by (simp add: new_tracer_def)
  from provider_failure_rethrown_and_recorded [where f = throwing_call and params = chat_params
      and a = MistralCall and w = "new_tracer sample_config 0 net_ok" and rnd = sample_fill,
      OF p f] a
  have "fst (instrument MistralCall (new_tracer sample_config 0 net_ok) sample_fill throwing_call
          chat_params) = Inl (ErrorInstance ''Error'' ''connection reset'')
   \<and> map status (closed_spans (snd (instrument MistralCall (new_tracer sample_config 0 net_ok)
          sample_fill throwing_call chat_params)))
       = [Some (2, Some ''connection reset'')]
   \<and> map (\<lambda>sp. last (attributes sp)) (closed_spans (snd (instrument MistralCall
          (new_tracer sample_config 0 net_ok) sample_fill throwing_call chat_params)))
       = [(''error.message'', StringValue ''connection reset'')]
   \<and> activeSpans (snd (instrument MistralCall (new_tracer sample_config 0 net_ok) sample_fill
          throwing_call chat_params)) = []"
    by (auto simp: suffix_def)
  with p f show ?thesis by blast
qed

subsection \<open>Usage extraction\<close>

text \<open>
  C6: when an Anthropic call is reached and the provider resolves with a response (one
  that is not \<open>null\<close> or \<open>undefined\<close>), the instrumented call returns that response and
  closes one span with status 0 (OK). If the response carries a usage object whose
  \<open>input_tokens\<close> and \<open>output_tokens\<close> are token counts \<open>n\<close> and \<open>m\<close> (an absent field
  counting as 0), the usage attributes of the span are exactly the prompt count \<open>n\<close>, the
  completion count \<open>m\<close> and the total \<open>n + m\<close>, under the \<open>gen_ai.usage\<close> names and
  under the \<open>ai\<close> names; all six are always present. If the response carries no usage
  (the property is absent or otherwise falsy), the span has no usage attribute.
\<close>

theorem anthropic_usage_extraction:
  assumes "\<not> nullish params" and "f params = (Inr response, dt)" and "\<not> nullish response"
  shows "fst (instrumentAnthropicCall w rnd f params) = Inr response
   \<and> (\<exists>sp. closed_spans (snd (instrumentAnthropicCall w rnd f params)) = closed_spans w @ [sp]
        \<and> status sp = Some (0, None)
        \<and> (own_prop response ''usage'' = JObj us
             \<and> token_count (map_of us ''input_tokens'') = Some n
             \<and> token_count (map_of us ''output_tokens'') = Some m \<longrightarrow>
            usage_attrs sp =
              [(''gen_ai.usage.prompt_tokens'', IntValue n),
               (''gen_ai.usage.completion_tokens'', IntValue m),
               (''gen_ai.usage.total_tokens'', IntValue (n + m)),
               (''ai.prompt_tokens'', IntValue n),
               (''ai.completion_tokens'', IntValue m),
               (''ai.total_tokens'', IntValue (n + m))])
        \<and> (\<not> truthy (own_prop response ''usage'') \<longrightarrow> usage_attrs sp = []))"
  using assms by (rule anthropic_usage_recorded)

theorem anthropic_usage_extraction_witness:
  "\<not> nullish chat_params \<and> anthropic_call chat_params = (Inr anthropic_response, 120)
   \<and> \<not> nullish anthropic_response
   \<and> own_prop anthropic_response ''usage''
       = JObj [(''input_tokens'', JNum 7), (''output_tokens'', JNum 3)]
   \<and> token_count (map_of [(''input_tokens'', JNum 7), (''output_tokens'', JNum 3)]
        ''input_tokens'') = Some 7
   \<and> token_count (map_of [(''input_tokens'', JNum 7), (''output_tokens'', JNum 3)]
        ''output_tokens'') = Some 3
   \<and> fst (instrumentAnthropicCall (new_tracer sample_config 0 net_ok) sample_fill anthropic_call
        chat_params) = Inr anthropic_response
   \<and> map usage_attrs (closed_spans (snd (instrumentAnthropicCall
        (new_tracer sample_config 0 net_ok) sample_fill anthropic_call chat_params)))
      = [[(''gen_ai.usage.prompt_tokens'', IntValue 7),
          (''gen_ai.usage.completion_tokens'', IntValue 3),
          (''gen_ai.usage.total_tokens'', IntValue 10),
          (''ai.prompt_tokens'', IntValue 7),
          (''ai.completion_tokens'', IntValue 3),
          (''ai.total_tokens'', IntValue 10)]]
   \<and> \<not> truthy (own_prop (JObj [(''id'', JStr ''response-1'')]) ''usage'')
   \<and> map usage_attrs (closed_spans (snd (instrumentAnthropicCall
        (new_tracer sample_config 0 net_ok) sample_fill plain_response_call chat_params)))
      = [[]]"
proof -
  let ?w = "new_tracer sample_config 0 net_ok"
  let ?us = "[(''input_tokens'', JNum 7), (''output_tokens'', JNum 3)]"
  let ?plain = "JObj [(''id'', JStr ''response-1'')]"
  have p: "\<not> nullish chat_params" by (simp add: chat_params_def)
  have f: "anthropic_call chat_params = (Inr anthropic_response, 120)"
    by (simp add: anthropic_call_def)
  have r: "\<not> nullish anthropic_response" by (simp add: anthropic_response_def)
  have u: "own_prop anthropic_response ''usage'' = JObj ?us"
    by (simp add: anthropic_response_def)
  have i: "token_count (map_of ?us ''input_tokens'') = Some 7"
    by (simp add: is_integer_def)
  have j: "token_count (map_of ?us ''output_tokens'') = Some 3"
    by (simp add: is_integer_def)
  have f': "plain_response_call chat_params = (Inr ?plain, 120)"
    by (simp add: plain_response_call_def)
  have r': "\<not> nullish ?plain" by simp
  have u': "\<not> truthy (own_prop ?plain ''usage'')" by simp
  from anthropic_usage_extraction [where f = anthropic_call and params = chat_params
      and w = ?w and rnd = sample_fill and us = ?us and n = 7 and m = 3, OF p f r] u i j
  have 1: "fst (instrumentAnthropicCall ?w sample_fill anthropic_call chat_params)
        = Inr anthropic_response"
    and 2: "map usage_attrs (closed_spans (snd (instrumentAnthropicCall ?w sample_fill
          anthropic_call chat_params)))
      = [[(''gen_ai.usage.prompt_tokens'', IntValue 7),
          (''gen_ai.usage.completion_tokens'', IntValue 3),
          (''gen_ai.usage.total_tokens'', IntValue 10),
          (''ai.prompt_tokens'', IntValue 7),
          (''ai.completion_tokens'', IntValue 3),
          (''ai.total_tokens'', IntValue 10)]]"
    by auto
  from anthropic_usage_extraction [where f = plain_response_call and params = chat_params
      and w = ?w and rnd = sample_fill and us = "[]" and n = 0 and m = 0, OF p f' r'] u'
  have 3: "map usage_attrs (closed_spans (snd (instrumentAnthropicCall ?w sample_fill
          plain_response_call chat_params))) = [[]]"
    by auto
  from p f r u i j 1 2 u' 3 show ?thesis by blast
qed

subsection \<open>Failures of the telemetry path\<close>

text \<open>
  A send that fails is visible on the console only: the state after \<open>exportSpans\<close> is
  the same for every outcome of the request, up to the lines written by \<open>console.error\<close>.
\<close>

lemma export_outcome_only_logged:
  "(exportSpans (w\<lparr>net := n1\<rparr>))\<lparr>console := c, net := n\<rparr>
     = (exportSpans (w\<lparr>net := n2\<rparr>))\<lparr>console := c, net := n\<rparr>"
  by (simp add: exportSpans_def Let_def)

lemma bedrock_malformed_body:
  assumes "\<not> nullish command" and "f command = (Inr response, dt)"
    and "own_prop response ''body'' = JBody (Inl e)"
  shows "fst (instrumentBedrockCall w rnd f command) = Inl e
    \<and> (\<exists>sp. closed_spans (snd (instrumentBedrockCall w rnd f command)) = closed_spans w @ [sp]
          \<and> status sp = Some (2, Some (if instanceof_Error e then error_message e
                                         else ''Unknown error'')))"
proof -
  let ?sid = "generateSpanId (snd rnd)"
  let ?w = "snd (startSpan w rnd ''bedrock.invokeModel'' None)"
  from assms(3) have nn: "\<not> nullish response" by (cases response) auto
  have o: "span_open w ?sid ''bedrock.invokeModel'' ?w" by (rule startSpan_open)
  have "\<exists>w'. try_BedrockCall ?w ?sid (now ?w) f command = (Inl e, w')
      \<and> span_open w ?sid ''bedrock.invokeModel'' w'"
    using o assms nn
    by (simp add: try_BedrockCall_def get_prop_def decode_body_def Let_def
          del: own_prop.simps)
  then obtain w' where t: "try_BedrockCall ?w ?sid (now ?w) f command = (Inl e, w')"
    and o': "span_open w ?sid ''bedrock.invokeModel'' w'"
    by blast
  from try_catch_failure [OF t o']
  show ?thesis
    unfolding instrumentBedrockCall_def Let_def case_prod_beta startSpan_own
    by blast
qed

text \<open>
  C1 at a Bedrock response whose body is not JSON: the provider call itself succeeds
  (\<open>malformed_body_call\<close> resolves with the response), yet the instrumented call fails
  with the \<open>SyntaxError\<close> of the usage parsing, and the span is closed with status 2
  (ERROR) and that error's message. The failure of the telemetry step has replaced the
  original result.
\<close>

theorem bedrock_malformed_body_fails_the_call:
  "fst (malformed_body_call bedrock_command) = Inr malformed_body_response
   \<and> fst (instrumentBedrockCall (new_tracer sample_config 0 net_ok) sample_fill
          malformed_body_call bedrock_command)
       = Inl (ErrorInstance ''SyntaxError'' ''Unexpected token in JSON'')
   \<and> map status (closed_spans (snd (instrumentBedrockCall (new_tracer sample_config 0 net_ok)
          sample_fill malformed_body_call bedrock_command)))
       = [Some (2, Some ''Unexpected token in JSON'')]"
proof -
  have c: "\<not> nullish bedrock_command" by (simp add: bedrock_command_def)
  have f: "malformed_body_call bedrock_command = (Inr malformed_body_response, 120)"
    by (simp add: malformed_body_call_def)
  have b: "own_prop malformed_body_response ''body''
      = JBody (Inl (ErrorInstance ''SyntaxError'' ''Unexpected token in JSON''))"
    by (simp add: malformed_body_response_def)
  from bedrock_malformed_body [where f = malformed_body_call and command = bedrock_command
      and w = "new_tracer sample_config 0 net_ok" and rnd = sample_fill, OF c f b] f
  show ?thesis by auto
qed

subsection \<open>Reading properties of a wrapped client\<close>

text \<open>
  C10: on a client wrapped by \<open>wrapOpenAI\<close>, reading one of the properties \<open>chat\<close>,
  \<open>embeddings\<close>, \<open>images\<close>, \<open>audio\<close>, \<open>moderations\<close> throws a \<open>TypeError\<close> when the
  client's value for it is not an object (the proxy cannot be built), and yields a proxy
  over the value when it is; every other property yields the client's own value. The
  same holds for \<open>wrapAnthropic\<close> with the single property \<open>messages\<close>.
\<close>

theorem instrumented_property_needs_object:
  "(is_object c \<longrightarrow> wrapOpenAI c = Inr (Proxy OpenAI_client c)
                    \<and> wrapAnthropic c = Inr (Proxy Anthropic_client c))
   \<and> (p \<in> set [''chat'', ''embeddings'', ''images'', ''audio'', ''moderations'']
        \<and> \<not> is_object (client_get c p) \<longrightarrow>
       (\<exists>msg. wrapped_get (Proxy OpenAI_client c) p = Inl (TypeError msg)))
   \<and> (p \<in> set [''chat'', ''embeddings'', ''images'', ''audio'', ''moderations'']
        \<and> is_object (client_get c p) \<longrightarrow>
       (\<exists>h. wrapped_get (Proxy OpenAI_client c) p = Inr (Proxy h (client_get c p))))
   \<and> (p \<notin> set [''chat'', ''embeddings'', ''images'', ''audio'', ''moderations''] \<longrightarrow>
       wrapped_get (Proxy OpenAI_client c) p = Inr (Forwarded (client_get c p)))
   \<and> (p = ''messages'' \<and> \<not> is_object (client_get c p) \<longrightarrow>
       (\<exists>msg. wrapped_get (Proxy Anthropic_client c) p = Inl (TypeError msg)))
   \<and> (p = ''messages'' \<and> is_object (client_get c p) \<longrightarrow>
       (\<exists>h. wrapped_get (Proxy Anthropic_client c) p = Inr (Proxy h (client_get c p))))
   \<and> (p \<noteq> ''messages'' \<longrightarrow>
       wrapped_get (Proxy Anthropic_client c) p = Inr (Forwarded (client_get c p)))"
proof -
  have t: "\<exists>msg. TypeError m = TypeError msg" for m
    by blast
  show ?thesis
    by (simp add: wrapOpenAI_def wrapAnthropic_def new_Proxy_def Let_def t)
qed

theorem instrumented_property_needs_object_witness:
  "is_object partial_client
   \<and> wrapOpenAI partial_client = Inr (Proxy OpenAI_client partial_client)
   \<and> \<not> is_object (client_get partial_client ''embeddings'')
   \<and> (\<exists>msg. wrapped_get (Proxy OpenAI_client partial_client) ''embeddings''
         = Inl (TypeError msg))
   \<and> is_object (client_get partial_client ''chat'')
   \<and> (\<exists>h. wrapped_get (Proxy OpenAI_client partial_client) ''chat''
         = Inr (Proxy h (client_get partial_client ''chat'')))
   \<and> wrapped_get (Proxy OpenAI_client partial_client) ''apiKey''
       = Inr (Forwarded (CVal (JStr ''sk-test'')))
   \<and> \<not> is_object (client_get partial_client ''messages'')
   \<and> (\<exists>msg. wrapped_get (Proxy Anthropic_client partial_client) ''messages''
         = Inl (TypeError msg))
   \<and> wrapped_get (Proxy Anthropic_client partial_client) ''apiKey''
       = Inr (Forwarded (CVal (JStr ''sk-test'')))"
proof -
  let ?c = partial_client
  have o: "is_object ?c" by (simp add: partial_client_def)
  have e: "\<not> is_object (client_get ?c ''embeddings'')" by (simp add: partial_client_def)
  have m: "\<not> is_object (client_get ?c ''messages'')" by (simp add: partial_client_def)
  have ch: "is_object (client_get ?c ''chat'')" by (simp add: partial_client_def)
  have k: "client_get ?c ''apiKey'' = CVal (JStr ''sk-test'')" by (simp add: partial_client_def)
  from instrumented_property_needs_object [of ?c "''embeddings''"] o e
  have 1: "wrapOpenAI ?c = Inr (Proxy OpenAI_client ?c)"
    and 2: "\<exists>msg. wrapped_get (Proxy OpenAI_client ?c) ''embeddings'' = Inl (TypeError msg)"
    by simp_all
  from instrumented_property_needs_object [of ?c "''chat''"] ch
  have 3: "\<exists>h. wrapped_get (Proxy OpenAI_client ?c) ''chat''
         = Inr (Proxy h (client_get ?c ''chat''))"
    by simp
  from instrumented_property_needs_object [of ?c "''apiKey''"] k
  have 4: "wrapped_get (Proxy OpenAI_client ?c) ''apiKey'' = Inr (Forwarded (CVal (JStr ''sk-test'')))"
    and 5: "wrapped_get (Proxy Anthropic_client ?c) ''apiKey''
        = Inr (Forwarded (CVal (JStr ''sk-test'')))"
    by simp_all
  from instrumented_property_needs_object [of ?c "''messages''"] m
  have 6: "\<exists>msg. wrapped_get (Proxy Anthropic_client ?c) ''messages'' = Inl (TypeError msg)"
    by simp
  from o 1 e 2 ch 3 4 m 6 5 show ?thesis by blast
qed

end
